theory Spec2Isabelle
  imports Main "HOL-Library.Sublist"
begin

section \<open>The request handler: \<open>SecureWebRTCHandler\<close>\<close>

text \<open>
  The handler derives from the standard library's \<open>SimpleHTTPRequestHandler\<close>. What the
  base class contributes (the header buffer, \<open>send_response\<close>, \<open>send_error\<close>, the reading of
  the request line, the method dispatch, \<open>translate_path\<close>, its own \<open>guess_type\<close>) is library
  code: it is modelled here after the library's source (\<open>http/server.py\<close> of Python 3.11),
  and what depends on the machine (the file system, the clock, the MIME database) or only
  renders text (\<open>repr\<close>, the HTML page of an error) is a parameter, collected in the record
  \<open>httpd\<close>. Logging only prints and is left out, and so is \<open>close_connection\<close>, which decides
  whether a further request is read from the same connection and has no part in the reply
  to this one.
\<close>

subsection \<open>Strings and paths\<close>

definition endswith :: "string \<Rightarrow> string \<Rightarrow> bool" where
  \<comment> \<open>\<open>s.endswith(suf)\<close>: a comparison of characters, case-sensitive\<close>
  "endswith s suf = suffix suf s"

definition endswith_any :: "string \<Rightarrow> string list \<Rightarrow> bool" where
  \<comment> \<open>\<open>s.endswith((a, b, ...))\<close> with a tuple of suffixes\<close>
  "endswith_any s sufs = list_ex (endswith s) sufs"

definition startswith :: "string \<Rightarrow> string \<Rightarrow> bool" where
  "startswith s pre = prefix pre s"

definition isspace :: "char \<Rightarrow> bool" where
  \<comment> \<open>\<open>str.isspace\<close> of a character decoded from ISO-8859-1\<close>
  "isspace c \<longleftrightarrow>
     c \<in> set [CHR 0x09, CHR 0x0A, CHR 0x0B, CHR 0x0C, CHR 0x0D, CHR 0x1C, CHR 0x1D, CHR 0x1E,
              CHR 0x1F, CHR 0x20, CHR 0x85, CHR 0xA0]"

definition split_where :: "(char \<Rightarrow> bool) \<Rightarrow> string \<Rightarrow> string list" where
  \<comment> \<open>the pieces between the characters that satisfy \<open>P\<close>, empty pieces included\<close>
  "split_where P s = foldr (\<lambda>c ws. if P c then [] # ws else (c # hd ws) # tl ws) s [[]]"

definition str_split :: "string \<Rightarrow> string list" where
  \<comment> \<open>\<open>s.split()\<close>: the words between runs of whitespace\<close>
  "str_split s = filter (\<lambda>w. w \<noteq> []) (split_where isspace s)"

definition split_on :: "char \<Rightarrow> string \<Rightarrow> string list" where
  \<comment> \<open>\<open>s.split(sep)\<close> for a separator of one character\<close>
  "split_on sep s = split_where (\<lambda>c. c = sep) s"

definition rstrip :: "string \<Rightarrow> string \<Rightarrow> string" where
  \<comment> \<open>\<open>s.rstrip(chars)\<close>\<close>
  "rstrip s chars = rev (dropWhile (\<lambda>c. c \<in> set chars) (rev s))"

definition lstrip :: "string \<Rightarrow> string \<Rightarrow> string" where
  \<comment> \<open>\<open>s.lstrip(chars)\<close>\<close>
  "lstrip s chars = dropWhile (\<lambda>c. c \<in> set chars) s"

definition isdigit :: "string \<Rightarrow> bool" where
  \<comment> \<open>\<open>str.isdigit\<close> on ISO-8859-1 text: the ten digits and the superscripts 1, 2, 3\<close>
  "isdigit s \<longleftrightarrow>
     s \<noteq> [] \<and>
     list_all (\<lambda>c. c \<in> set ''0123456789'' \<or> c \<in> set [CHR 0xB2, CHR 0xB3, CHR 0xB9]) s"

definition int_of_str :: "string \<Rightarrow> nat option" where
  \<comment> \<open>\<open>int(s)\<close> of a string that passed \<open>isdigit\<close>; \<open>None\<close> is the \<open>ValueError\<close> for a
      superscript digit\<close>
  "int_of_str s =
     (if list_all (\<lambda>c. c \<in> set ''0123456789'') s
      then Some (foldl (\<lambda>n c. 10 * n + (of_char c - 48)) 0 s)
      else None)"

definition os_path_join :: "string \<Rightarrow> string \<Rightarrow> string" where
  \<comment> \<open>\<open>posixpath.join(a, b)\<close>\<close>
  "os_path_join a b =
     (if (case b of [] \<Rightarrow> False | c # _ \<Rightarrow> c = CHR ''/'') then b
      else if a = [] \<or> endswith a ''/'' then a @ b
      else a @ ''/'' @ b)"

definition digit_char :: "nat \<Rightarrow> char" where
  "digit_char d = ''0123456789'' ! d"

fun str_nat :: "nat \<Rightarrow> string" where
  \<comment> \<open>\<open>str(n)\<close> of a non-negative integer\<close>
  "str_nat n = (if n < 10 then [digit_char n] else str_nat (n div 10) @ [digit_char (n mod 10)])"

declare str_nat.simps [simp del]

subsection \<open>The file system and the library's parameters\<close>

datatype node =
    Dir
  | File (readable: bool) (st_size: nat) (st_mtime: nat) (content: string)

datatype guess = GuessStr string | GuessTuple string "string option"

record httpd =
  filesystem :: "string \<Rightarrow> node option"
  translate_path :: "string \<Rightarrow> string"
  super_guess_type :: "string \<Rightarrow> guess"
  date_time_string :: "nat \<Rightarrow> string"
  date_now :: nat
  version_string :: string
  error_message_format :: "nat \<Rightarrow> string \<Rightarrow> string \<Rightarrow> string"
    \<comment> \<open>the bytes of the error page for a code, a message and an explanation\<close>
  repr :: "string \<Rightarrow> string"  \<comment> \<open>\<open>'%r' % s\<close>\<close>

definition os_path_exists :: "httpd \<Rightarrow> string \<Rightarrow> bool" where
  "os_path_exists E p = (filesystem E p \<noteq> None)"

definition os_path_isdir :: "httpd \<Rightarrow> string \<Rightarrow> bool" where
  "os_path_isdir E p = (filesystem E p = Some Dir)"

definition open_rb :: "httpd \<Rightarrow> string \<Rightarrow> node option" where
  \<comment> \<open>\<open>open(path, 'rb')\<close>: \<open>None\<close> stands for the \<open>OSError\<close> (missing, a directory, unreadable)\<close>
  "open_rb E p =
     (case filesystem E p of
        Some (File True sz mt c) \<Rightarrow> Some (File True sz mt c)
      | _ \<Rightarrow> None)"

subsection \<open>The response on the wire and the header buffer\<close>

text \<open>
  The base class buffers the status line and the headers and writes them out at
  \<open>end_headers\<close>, and it does none of this while the version of the request is
  \<open>HTTP/0.9\<close>: such a reply is the body alone.
\<close>

datatype wire =
    StatusLine nat string
  | HeaderLine string string
  | BlankLine
  | BodyBytes string

record handler =
  path :: string
  command :: "string option"  \<comment> \<open>\<open>None\<close> while no request line has been accepted\<close>
  request_version :: string
  is_https :: "bool option"  \<comment> \<open>\<open>self.server.is_https\<close>; \<open>None\<close> when the attribute is absent\<close>
  headers_buffer :: "wire list"
  wfile :: "wire list"

definition send_header :: "string \<Rightarrow> string \<Rightarrow> handler \<Rightarrow> handler" where
  "send_header keyword val h =
     (if request_version h \<noteq> ''HTTP/0.9''
      then h\<lparr>headers_buffer := headers_buffer h @ [HeaderLine keyword val]\<rparr>
      else h)"

definition responses :: "nat \<Rightarrow> (string \<times> string) option" where
  \<comment> \<open>the short and the long message of the status codes sent here\<close>
  "responses code =
     (if code = 200 then Some (''OK'', ''Request fulfilled, document follows'')
      else if code = 400 then Some (''Bad Request'', ''Bad request syntax or unsupported method'')
      else if code = 403
      then Some (''Forbidden'', ''Request forbidden -- authorization will not help'')
      else if code = 404 then Some (''Not Found'', ''Nothing matches the given URI'')
      else if code = 414 then Some (''Request-URI Too Long'', ''URI is too long'')
      else if code = 431
      then Some (''Request Header Fields Too Large'',
                 ''The server is unwilling to process the request because its header '' @
                 ''fields are too large'')
      else if code = 501 then Some (''Not Implemented'', ''Server does not support this operation'')
      else if code = 505 then Some (''HTTP Version Not Supported'', ''Cannot fulfill request'')
      else None)"

definition send_response_only :: "nat \<Rightarrow> string option \<Rightarrow> handler \<Rightarrow> handler" where
  "send_response_only code message h =
     (if request_version h \<noteq> ''HTTP/0.9''
      then (let m = (case message of
                       Some m \<Rightarrow> m
                     | None \<Rightarrow> (case responses code of Some (s, l) \<Rightarrow> s | None \<Rightarrow> []))
            in h\<lparr>headers_buffer := headers_buffer h @ [StatusLine code m]\<rparr>)
      else h)"

definition send_response :: "httpd \<Rightarrow> nat \<Rightarrow> string option \<Rightarrow> handler \<Rightarrow> handler" where
  "send_response E code message h =
     (let h = send_response_only code message h;
          h = send_header ''Server'' (version_string E) h;
          h = send_header ''Date'' (date_time_string E (date_now E)) h
      in h)"

definition flush_headers :: "handler \<Rightarrow> handler" where
  "flush_headers h = h\<lparr>wfile := wfile h @ headers_buffer h, headers_buffer := []\<rparr>"

definition super_end_headers :: "handler \<Rightarrow> handler" where
  \<comment> \<open>the base class's \<open>end_headers\<close>: the blank line, then the buffer goes out\<close>
  "super_end_headers h =
     (if request_version h \<noteq> ''HTTP/0.9''
      then flush_headers (h\<lparr>headers_buffer := headers_buffer h @ [BlankLine]\<rparr>)
      else h)"

subsection \<open>\<open>end_headers\<close>\<close>

definition csp :: string where
  "csp = ''default-src 'self'; '' @
         ''script-src 'self' 'unsafe-inline'; '' @
         ''style-src 'self' 'unsafe-inline'; '' @
         ''connect-src 'self' wss: ws:; '' @
         ''media-src 'self' blob:; '' @
         ''img-src 'self' data: blob:; '' @
         ''font-src 'self'; '' @
         ''object-src 'none'; '' @
         ''base-uri 'self'' @ [CHR 0x27]"

definition end_headers :: "handler \<Rightarrow> handler" where
  "end_headers h =
     (let h = send_header ''Access-Control-Allow-Origin'' ''*'' h;
          h = send_header ''Access-Control-Allow-Methods'' ''GET, POST, OPTIONS'' h;
          h = send_header ''Access-Control-Allow-Headers'' ''Content-Type'' h;
          h = send_header ''X-Content-Type-Options'' ''nosniff'' h;
          h = send_header ''X-Frame-Options'' ''DENY'' h;
          h = send_header ''X-XSS-Protection'' ''1; mode=block'' h;
          h = send_header ''Referrer-Policy'' ''strict-origin-when-cross-origin'' h;
          h = send_header ''Permissions-Policy''
                ''camera=(self), microphone=(self), geolocation=()'' h;
          h = send_header ''Content-Security-Policy'' csp h;
          h = (if is_https h = Some True
               then send_header ''Strict-Transport-Security''
                      ''max-age=31536000; includeSubDomains'' h
               else h)
      in super_end_headers h)"

subsection \<open>\<open>guess_type\<close>\<close>

definition guess_type :: "httpd \<Rightarrow> string \<Rightarrow> string \<times> string option" where
  "guess_type E p =
     (let (mimetype, encoding) =
            (case super_guess_type E p of
               GuessTuple m e \<Rightarrow> (m, e)
             | GuessStr m \<Rightarrow> (m, None))
      in if endswith p ''.html'' \<or> endswith p ''.htm'' then (''text/html; charset=utf-8'', encoding)
         else if endswith p ''.css'' then (''text/css; charset=utf-8'', encoding)
         else if endswith p ''.js'' then (''application/javascript; charset=utf-8'', encoding)
         else if endswith p ''.mjs'' then (''application/javascript; charset=utf-8'', encoding)
         else if endswith p ''.json'' then (''application/json; charset=utf-8'', encoding)
         else if endswith p ''.wasm'' then (''application/wasm'', encoding)
         else if endswith p ''.ico'' then (''image/x-icon'', encoding)
         else if endswith p ''.png'' then (''image/png'', encoding)
         else if endswith p ''.jpg'' \<or> endswith p ''.jpeg'' then (''image/jpeg'', encoding)
         else if endswith p ''.svg'' then (''image/svg+xml'', encoding)
         else if endswith p ''.webp'' then (''image/webp'', encoding)
         else if endswith p ''.mp4'' then (''video/mp4'', encoding)
         else if endswith p ''.webm'' then (''video/webm'', encoding)
         else (mimetype, encoding))"

subsection \<open>\<open>send_error\<close> of the base class\<close>

definition send_error ::
  "httpd \<Rightarrow> nat \<Rightarrow> string option \<Rightarrow> string option \<Rightarrow> handler \<Rightarrow> handler" where
  \<comment> \<open>\<open>send_error(code, message=None, explain=None)\<close>; \<open>self.end_headers()\<close> dispatches to
      the handler's own \<open>end_headers\<close>\<close>
  "send_error E code message explain h =
     (let (shortmsg, longmsg) =
            (case responses code of Some sl \<Rightarrow> sl | None \<Rightarrow> (''???'', ''???''));
          message = (case message of None \<Rightarrow> shortmsg | Some m \<Rightarrow> m);
          explain = (case explain of None \<Rightarrow> longmsg | Some x \<Rightarrow> x);
          h = send_response E code (Some message) h;
          h = send_header ''Connection'' ''close'' h;
          has_body = (code \<ge> 200 \<and> code \<notin> {204, 205, 304});
          body = (if has_body then error_message_format E code message explain else []);
          h = (if has_body
               then send_header ''Content-Length'' (str_nat (length body))
                      (send_header ''Content-Type'' ''text/html;charset=utf-8'' h)
               else h);
          h = end_headers h
      in if command h \<noteq> Some ''HEAD'' \<and> body \<noteq> [] then h\<lparr>wfile := wfile h @ [BodyBytes body]\<rparr>
         else h)"

subsection \<open>\<open>send_head\<close>, \<open>do_OPTIONS\<close>, \<open>do_GET\<close> and \<open>do_HEAD\<close>\<close>

definition static_extensions :: "string list" where
  "static_extensions =
     [''.css'', ''.js'', ''.png'', ''.jpg'', ''.jpeg'', ''.ico'', ''.svg'', ''.woff'', ''.woff2'']"

definition send_head :: "httpd \<Rightarrow> handler \<Rightarrow> handler \<times> (string \<times> node) option" where
  \<comment> \<open>returns the handler and the opened file (with the path it was opened at), or \<open>None\<close>\<close>
  "send_head E h0 =
     (let h = (if path h0 = ''/'' \<or> path h0 = '''' then h0\<lparr>path := ''/index.html''\<rparr> else h0);
          p = translate_path E (path h)
      in if \<not> os_path_exists E p then (send_error E 404 (Some ''File not found'') None h, None)
         else
           (let index_path = os_path_join p ''index.html''
            in if os_path_isdir E p \<and> \<not> os_path_exists E index_path
               then (send_error E 403 (Some ''Directory listing not allowed'') None h, None)
               else
                 (let p = (if os_path_isdir E p then index_path else p)
                  in case open_rb E p of
                       None \<Rightarrow> (send_error E 404 (Some ''File not found'') None h, None)
                     | Some f \<Rightarrow>
                         (let ctype = fst (guess_type E p);
                              h = send_response E 200 None h;
                              h = send_header ''Content-type'' ctype h;
                              h = send_header ''Content-Length'' (str_nat (st_size f)) h;
                              h = send_header ''Last-Modified'' (date_time_string E (st_mtime f)) h;
                              h = (if endswith_any p static_extensions
                                   then send_header ''Cache-Control'' ''public, max-age=3600'' h
                                   else send_header ''Cache-Control''
                                          ''no-cache, no-store, must-revalidate'' h);
                              h = end_headers h
                          in (h, Some (p, f))))))"

definition do_OPTIONS :: "httpd \<Rightarrow> handler \<Rightarrow> handler" where
  "do_OPTIONS E h = end_headers (send_response E 200 None h)"

definition do_GET :: "httpd \<Rightarrow> handler \<Rightarrow> handler" where
  \<comment> \<open>base class: \<open>send_head\<close>, then the file is copied to the socket\<close>
  "do_GET E h =
     (case send_head E h of
        (h, None) \<Rightarrow> h
      | (h, Some (p, f)) \<Rightarrow> h\<lparr>wfile := wfile h @ [BodyBytes (content f)]\<rparr>)"

definition do_HEAD :: "httpd \<Rightarrow> handler \<Rightarrow> handler" where
  "do_HEAD E h = fst (send_head E h)"

subsection \<open>Reading the request: \<open>parse_request\<close> and \<open>handle_one_request\<close>\<close>

text \<open>
  What arrives on the connection is the request line, as \<open>rfile.readline(65537)\<close> returns it
  (at most 65537 bytes, decoded from ISO-8859-1), and the header lines, of which only the
  outcome of reading them matters here. \<open>parse_request\<close> starts with the request version
  set to \<open>HTTP/0.9\<close> and replaces it only once the third word of the request line has been
  accepted as a version below 2.0.
\<close>

datatype header_section =
    Headers
  | LineTooLong string  \<comment> \<open>\<open>http.client.LineTooLong\<close>, with \<open>str(err)\<close>\<close>
  | HTTPException string  \<comment> \<open>too many headers, with \<open>str(err)\<close>\<close>

record request =
  raw_requestline :: string
  header_lines :: header_section

definition version_number :: "string \<Rightarrow> (nat \<times> nat) option" where
  \<comment> \<open>the \<open>try\<close> block of \<open>parse_request\<close>; \<open>None\<close> is the \<open>ValueError\<close> it catches\<close>
  "version_number version =
     (if \<not> startswith version ''HTTP/'' then None
      else
        (let base_version_number = drop 5 version;
             numbers = split_on CHR ''.'' base_version_number
         in if length numbers \<noteq> 2 then None
            else if list_ex (\<lambda>component. \<not> isdigit component) numbers then None
            else if list_ex (\<lambda>component. length component > 10) numbers then None
            else (case (int_of_str (numbers ! 0), int_of_str (numbers ! 1)) of
                    (Some major, Some minor) \<Rightarrow> Some (major, minor)
                  | _ \<Rightarrow> None)))"

definition parse_request :: "httpd \<Rightarrow> request \<Rightarrow> handler \<Rightarrow> bool \<times> handler" where
  "parse_request E rq h =
     (let h = h\<lparr>command := None, request_version := ''HTTP/0.9''\<rparr>;
          requestline = rstrip (raw_requestline rq) [CHR 0x0D, CHR 0x0A];
          words = str_split requestline
      in if length words = 0 then (False, h)
         else if length words \<ge> 3 \<and> version_number (last words) = None
         then (False, send_error E 400
                        (Some (''Bad request version ('' @ repr E (last words) @ '')'')) None h)
         else if length words \<ge> 3 \<and> fst (the (version_number (last words))) \<ge> 2
         then (False, send_error E 505
                        (Some (''Invalid HTTP version ('' @ drop 5 (last words) @ '')'')) None h)
         else
           (let h = (if length words \<ge> 3 then h\<lparr>request_version := last words\<rparr> else h)
            in if \<not> (2 \<le> length words \<and> length words \<le> 3)
               then (False, send_error E 400
                              (Some (''Bad request syntax ('' @ repr E requestline @ '')'')) None h)
               else if length words = 2 \<and> words ! 0 \<noteq> ''GET''
               then (False, send_error E 400
                              (Some (''Bad HTTP/0.9 request type ('' @ repr E (words ! 0) @ '')''))
                              None h)
               else
                 (let h = h\<lparr>command := Some (words ! 0), path := words ! 1\<rparr>;
                      h = (if startswith (path h) ''//''
                           then h\<lparr>path := ''/'' @ lstrip (path h) ''/''\<rparr> else h)
                  in case header_lines rq of
                       LineTooLong err \<Rightarrow>
                         (False, send_error E 431 (Some ''Line too long'') (Some err) h)
                     | HTTPException err \<Rightarrow>
                         (False, send_error E 431 (Some ''Too many headers'') (Some err) h)
                     | Headers \<Rightarrow> (True, h))))"

definition handle_one_request :: "httpd \<Rightarrow> request \<Rightarrow> handler \<Rightarrow> handler" where
  \<comment> \<open>after parsing, the method named \<open>do_\<close> + command if the handler has one, else 501\<close>
  "handle_one_request E rq h =
     (if length (raw_requestline rq) > 65536
      then send_error E 414 None None (h\<lparr>request_version := [], command := Some []\<rparr>)
      else if raw_requestline rq = [] then h
      else
        (case parse_request E rq h of
           (False, h) \<Rightarrow> h
         | (True, h) \<Rightarrow>
             (if command h = Some ''GET'' then do_GET E h
              else if command h = Some ''HEAD'' then do_HEAD E h
              else if command h = Some ''OPTIONS'' then do_OPTIONS E h
              else send_error E 501
                     (Some (''Unsupported method ('' @ repr E (the (command h)) @ '')'')) None h)))"


section \<open>The server: \<open>SecureWebRTCServer\<close> and \<open>main\<close>\<close>

text \<open>
  The server object and the part of the machine it acts on are one record: the attributes of
  \<open>self\<close>, the set of paths that exist, and a trace of the calls the claims speak of.
  What the machine answers to each call that can fail (imports, the certificate builder,
  \<open>mkdtemp\<close>, file writes, the \<open>openssl\<close> commands, binding the port, the TLS set-up, the
  serving loop, the clock, the probe for the local address) is a parameter, the record
  \<open>outcomes\<close>. Library calls raise exceptions derived from \<open>Exception\<close>; the keyboard
  interrupt is modelled where the program waits for it, in the serving loop. Printing is left
  out, and with it the \<open>except\<close> clauses of \<open>start\<close>, which only print.
\<close>

subsection \<open>Exceptions, events, state\<close>

datatype exn =
    ImportError
  | FileNotFoundError
  | CalledProcessError
  | OSError nat string
  | SSLError string
  | OtherException string

datatype general_name = DNSName string | IPAddress string

datatype key_usage_bit =
    digital_signature | content_commitment | key_encipherment | data_encipherment
  | key_agreement | key_cert_sign | crl_sign | encipher_only | decipher_only

datatype hash_algorithm = SHA256

datatype purpose = SERVER_AUTH

record certificate =
  subject :: "(string \<times> string) list"
  issuer :: "(string \<times> string) list"
  public_key_size :: nat
  public_exponent :: nat
  not_valid_before :: int  \<comment> \<open>whole seconds since the epoch, as the certificate records times\<close>
  not_valid_after :: int
  subject_alternative_name :: "general_name list"
  key_usage :: "key_usage_bit list"
  extended_key_usage :: "purpose list"
  signature_hash_algorithm :: hash_algorithm

datatype event =
    NativeGeneration
  | Mkdtemp string
  | WriteCertificate string certificate
  | WritePrivateKey string
  | Run "string list"
  | Listening string nat
  | LoadCertChain "string option" "string option"
  | ServeForever
  | Cleanup
  | Unlink string
  | Rmdir string

record tcp_server =
  is_shut_down :: bool  \<comment> \<open>the event that \<open>shutdown()\<close> waits for\<close>
  socket_open :: bool
  server_is_https :: "bool option"

record state =
  port :: nat
  host :: string
  cert_file :: "string option"
  key_file :: "string option"
  server :: "tcp_server option"
  temp_cert_dir :: "string option"
  files :: "string set"
  trace :: "event list"

datatype serve_end = KeyboardInterrupt | Raised exn

record outcomes =
  import_cryptography :: "exn option"
  build_certificate :: "exn option"
  mkdtemp_first :: "exn + string"  \<comment> \<open>\<open>tempfile.mkdtemp()\<close> in the native generator\<close>
  write_cert :: "exn option"
  write_key :: "exn option"
  mkdtemp_second :: "exn + string"  \<comment> \<open>\<open>tempfile.mkdtemp()\<close> in the OpenSSL generator\<close>
  openssl_genrsa :: "exn option"
  openssl_req :: "exn option"
  bind :: "exn option"
  tls_setup :: "exn option"
  serve_forever :: serve_end
  utcnow_first :: int  \<comment> \<open>\<open>datetime.utcnow()\<close>, in microseconds since the epoch\<close>
  utcnow_second :: int
  getsockname :: "string option"  \<comment> \<open>\<open>None\<close>: the probe raised\<close>
  ip_address :: "string \<Rightarrow> bool"  \<comment> \<open>\<open>ipaddress.ip_address\<close> accepts the string\<close>

datatype 'a run = Done 'a | Blocked 'a

fun final :: "'a run \<Rightarrow> 'a" where
  "final (Done s) = s"
| "final (Blocked s) = s"

definition truthy :: "string option \<Rightarrow> bool" where
  \<comment> \<open>Python's truth value of a path attribute: \<open>None\<close> and the empty string are false\<close>
  "truthy v = (case v of None \<Rightarrow> False | Some s \<Rightarrow> s \<noteq> [])"

definition log :: "event \<Rightarrow> state \<Rightarrow> state" where
  "log e s = s\<lparr>trace := trace s @ [e]\<rparr>"

definition create :: "string \<Rightarrow> state \<Rightarrow> state" where
  "create p s = s\<lparr>files := insert p (files s)\<rparr>"

subsection \<open>\<open>get_local_ip\<close> and the certificate of the native generator\<close>

definition get_local_ip :: "outcomes \<Rightarrow> string" where
  "get_local_ip M = (case getsockname M of Some a \<Rightarrow> a | None \<Rightarrow> ''localhost'')"

definition days :: "int \<Rightarrow> int" where
  \<comment> \<open>\<open>datetime.timedelta(days=n)\<close>, in microseconds\<close>
  "days n = n * 86400 * 1000000"

definition asn1_time :: "int \<Rightarrow> int" where
  \<comment> \<open>a time as the certificate builder encodes it: whole seconds, the microseconds dropped\<close>
  "asn1_time t = t div 1000000"

definition self_signed_certificate :: "outcomes \<Rightarrow> string \<Rightarrow> certificate" where
  \<comment> \<open>the certificate the builder signs; the clock is read once for each end of the
      validity window\<close>
  "self_signed_certificate M h =
     (let name = [(''C'', ''US''), (''ST'', ''Local''), (''L'', ''Local''),
                  (''O'', ''WebRTC Dev Server''), (''CN'', h)];
          san_list = [DNSName h, DNSName ''localhost'', DNSName ''127.0.0.1''];
          local_ip = get_local_ip M;
          san_list = (if local_ip \<noteq> [] \<and> local_ip \<noteq> h \<and> ip_address M local_ip
                      then san_list @ [IPAddress local_ip] else san_list)
      in \<lparr>subject = name,
          issuer = name,
          public_key_size = 2048,
          public_exponent = 65537,
          not_valid_before = asn1_time (utcnow_first M),
          not_valid_after = asn1_time (utcnow_second M + days 365),
          subject_alternative_name = san_list,
          key_usage = [key_encipherment, digital_signature],
          extended_key_usage = [SERVER_AUTH],
          signature_hash_algorithm = SHA256\<rparr>)"

subsection \<open>\<open>generate_cert_with_openssl\<close>\<close>

definition use_temp_dir :: "string \<Rightarrow> state \<Rightarrow> state" where
  \<comment> \<open>the three assignments after \<open>mkdtemp\<close>, the same in both generators\<close>
  "use_temp_dir d s =
     log (Mkdtemp d)
       (create d s)\<lparr>temp_cert_dir := Some d,
                     cert_file := Some (os_path_join d ''cert.pem''),
                     key_file := Some (os_path_join d ''key.pem'')\<rparr>"

definition genrsa_argv :: "state \<Rightarrow> string list" where
  "genrsa_argv s = [''openssl'', ''genrsa'', ''-out'', the (key_file s), ''2048'']"

definition req_argv :: "state \<Rightarrow> string list" where
  "req_argv s =
     [''openssl'', ''req'', ''-new'', ''-x509'', ''-key'', the (key_file s),
      ''-out'', the (cert_file s), ''-days'', ''365'', ''-subj'',
      ''/C=US/ST=Local/L=Local/O=WebRTC Dev Server/CN='' @ host s]"

definition openssl_except :: "exn \<Rightarrow> state \<Rightarrow> (exn + bool) \<times> state" where
  \<comment> \<open>\<open>except (subprocess.CalledProcessError, FileNotFoundError): return False\<close>\<close>
  "openssl_except e s =
     (if e = CalledProcessError \<or> e = FileNotFoundError then (Inr False, s) else (Inl e, s))"

definition generate_cert_with_openssl :: "outcomes \<Rightarrow> state \<Rightarrow> (exn + bool) \<times> state" where
  "generate_cert_with_openssl M s =
     (case mkdtemp_second M of
        Inl e \<Rightarrow> openssl_except e s
      | Inr d \<Rightarrow>
          (let s = use_temp_dir d s;
               s = log (Run (genrsa_argv s)) s
           in case openssl_genrsa M of
                Some e \<Rightarrow> openssl_except e s
              | None \<Rightarrow>
                  (let s = create (the (key_file s)) s;
                       s = log (Run (req_argv s)) s
                   in case openssl_req M of
                        Some e \<Rightarrow> openssl_except e s
                      | None \<Rightarrow> (Inr True, create (the (cert_file s)) s))))"

subsection \<open>\<open>generate_self_signed_cert\<close>\<close>

definition native_generation :: "outcomes \<Rightarrow> state \<Rightarrow> exn option \<times> state" where
  \<comment> \<open>the body of the \<open>try\<close>: the exception that ends it, if any\<close>
  "native_generation M s =
     (case import_cryptography M of
        Some e \<Rightarrow> (Some e, s)
      | None \<Rightarrow>
          (case build_certificate M of
             Some e \<Rightarrow> (Some e, s)
           | None \<Rightarrow>
               (case mkdtemp_first M of
                  Inl e \<Rightarrow> (Some e, s)
                | Inr d \<Rightarrow>
                    (let s = use_temp_dir d s
                     in case write_cert M of
                          Some e \<Rightarrow> (Some e, s)
                        | None \<Rightarrow>
                            (let s = log (WriteCertificate (the (cert_file s))
                                       (self_signed_certificate M (host s)))
                                       (create (the (cert_file s)) s)
                             in case write_key M of
                                  Some e \<Rightarrow> (Some e, s)
                                | None \<Rightarrow>
                                    (None, log (WritePrivateKey (the (key_file s)))
                                             (create (the (key_file s)) s)))))))"

definition generate_self_signed_cert :: "outcomes \<Rightarrow> state \<Rightarrow> (exn + bool) \<times> state" where
  \<comment> \<open>both \<open>except\<close> clauses, for \<open>ImportError\<close> and for \<open>Exception\<close>, go to OpenSSL\<close>
  "generate_self_signed_cert M s =
     (case native_generation M (log NativeGeneration s) of
        (None, s) \<Rightarrow> (Inr True, s)
      | (Some e, s) \<Rightarrow> generate_cert_with_openssl M s)"

subsection \<open>\<open>cleanup\<close>\<close>

definition shutdown :: "tcp_server \<Rightarrow> tcp_server option" where
  \<comment> \<open>the library's \<open>shutdown()\<close> asks the serving loop to stop and waits for the event that
      the loop sets when it ends; the event starts unset, so with no loop ever run the wait
      does not end (\<open>None\<close>)\<close>
  "shutdown srv = (if is_shut_down srv then Some srv else None)"

definition server_close :: "tcp_server \<Rightarrow> tcp_server" where
  "server_close srv = srv\<lparr>socket_open := False\<rparr>"

definition unlink :: "string \<Rightarrow> state \<Rightarrow> state" where
  "unlink p s = log (Unlink p) (s\<lparr>files := files s - {p}\<rparr>)"

definition in_dir :: "string \<Rightarrow> string \<Rightarrow> bool" where
  "in_dir d p = (prefix (d @ ''/'') p \<and> p \<noteq> d @ ''/'')"

definition rmdir :: "string \<Rightarrow> state \<Rightarrow> state option" where
  \<comment> \<open>\<open>None\<close>: the directory is not empty and \<open>os.rmdir\<close> raises\<close>
  "rmdir d s =
     (if \<exists>p \<in> files s. in_dir d p then None
      else Some (log (Rmdir d) (s\<lparr>files := files s - {d}\<rparr>)))"

definition cleanup_temp :: "state \<Rightarrow> state" where
  \<comment> \<open>the second half of \<open>cleanup\<close>; its \<open>except Exception\<close> only prints\<close>
  "cleanup_temp s =
     (if truthy (temp_cert_dir s) \<and> the (temp_cert_dir s) \<in> files s
      then
        (let s = (if truthy (cert_file s) \<and> the (cert_file s) \<in> files s
                  then unlink (the (cert_file s)) s else s);
             s = (if truthy (key_file s) \<and> the (key_file s) \<in> files s
                  then unlink (the (key_file s)) s else s)
         in case rmdir (the (temp_cert_dir s)) s of None \<Rightarrow> s | Some s \<Rightarrow> s)
      else s)"

definition cleanup :: "state \<Rightarrow> state run" where
  "cleanup s0 =
     (let s = log Cleanup s0
      in case server s of
           None \<Rightarrow> Done (cleanup_temp s)
         | Some srv \<Rightarrow>
             (case shutdown srv of
                None \<Rightarrow> Blocked s
              | Some srv \<Rightarrow> Done (cleanup_temp (s\<lparr>server := Some (server_close srv)\<rparr>))))"

subsection \<open>\<open>start\<close>\<close>

definition required_files :: "string list" where
  "required_files = [''index.html'', ''webrtc.js'', ''styles.css'']"

datatype ending = Returned | Interrupted | Failed exn

definition serve :: "outcomes \<Rightarrow> state \<Rightarrow> ending \<times> state" where
  \<comment> \<open>from the creation of the listener to the end of the serving loop; the loop ends by an
      exception only, and sets the event on its way out\<close>
  "serve M s =
     (case bind M of
        Some e \<Rightarrow> (Failed e, s)
      | None \<Rightarrow>
          (let srv = \<lparr>is_shut_down = False, socket_open = True, server_is_https = Some True\<rparr>;
               s = log (Listening (host s) (port s)) (s\<lparr>server := Some srv\<rparr>);
               s = log (LoadCertChain (cert_file s) (key_file s)) s
           in case tls_setup M of
                Some e \<Rightarrow> (Failed e, s)
              | None \<Rightarrow>
                  (let s = log ServeForever (s\<lparr>server := Some (srv\<lparr>is_shut_down := True\<rparr>)\<rparr>)
                   in case serve_forever M of
                        KeyboardInterrupt \<Rightarrow> (Interrupted, s)
                      | Raised e \<Rightarrow> (Failed e, s))))"

definition start_try :: "outcomes \<Rightarrow> state \<Rightarrow> ending \<times> state" where
  \<comment> \<open>the body of the \<open>try\<close> of \<open>start\<close>\<close>
  "start_try M s =
     (if filter (\<lambda>f. f \<notin> files s) required_files \<noteq> [] then (Returned, s)
      else if \<not> truthy (cert_file s) \<or> \<not> truthy (key_file s)
      then
        (case generate_self_signed_cert M s of
           (Inl e, s) \<Rightarrow> (Failed e, s)
         | (Inr False, s) \<Rightarrow> (Returned, s)
         | (Inr True, s) \<Rightarrow> serve M s)
      else serve M s)"

definition start :: "outcomes \<Rightarrow> state \<Rightarrow> state run" where
  \<comment> \<open>every \<open>except\<close> clause only prints; \<open>finally\<close> calls \<open>cleanup\<close>\<close>
  "start M s = cleanup (snd (start_try M s))"

subsection \<open>\<open>main\<close>\<close>

record args =
  args_port :: nat
  args_host :: string
  network :: bool
  cert :: "string option"
  key :: "string option"
  install_deps :: bool

datatype abort = CertificateNotFound | PrivateKeyNotFound | BothRequired

datatype main_result = DependenciesInstalled | Aborted abort | Started "state run"

definition SecureWebRTCServer :: "nat \<Rightarrow> string \<Rightarrow> string option \<Rightarrow> string option \<Rightarrow> string set \<Rightarrow> state" where
  \<comment> \<open>\<open>__init__\<close>, on a machine where the paths \<open>fs\<close> exist\<close>
  "SecureWebRTCServer p h c k fs =
     \<lparr>port = p, host = h, cert_file = c, key_file = k, server = None, temp_cert_dir = None,
      files = fs, trace = []\<rparr>"

definition main :: "outcomes \<Rightarrow> string set \<Rightarrow> args \<Rightarrow> main_result" where
  "main M fs a0 =
     (let a = (if network a0 then a0\<lparr>args_host := ''0.0.0.0''\<rparr> else a0);
          run = Started (start M (SecureWebRTCServer (args_port a) (args_host a) (cert a) (key a) fs))
      in if install_deps a then DependenciesInstalled
         else if truthy (cert a) \<and> truthy (key a)
         then (if the (cert a) \<notin> fs then Aborted CertificateNotFound
               else if the (key a) \<notin> fs then Aborted PrivateKeyNotFound
               else run)
         else if truthy (cert a) \<or> truthy (key a) then Aborted BothRequired
         else run)"
section \<open>What the claims speak of\<close>

definition security_header_set :: "wire list" where
  "security_header_set =
     [HeaderLine ''Access-Control-Allow-Origin'' ''*'',
      HeaderLine ''Access-Control-Allow-Methods'' ''GET, POST, OPTIONS'',
      HeaderLine ''Access-Control-Allow-Headers'' ''Content-Type'',
      HeaderLine ''X-Content-Type-Options'' ''nosniff'',
      HeaderLine ''X-Frame-Options'' ''DENY'',
      HeaderLine ''X-XSS-Protection'' ''1; mode=block'',
      HeaderLine ''Referrer-Policy'' ''strict-origin-when-cross-origin'',
      HeaderLine ''Permissions-Policy'' ''camera=(self), microphone=(self), geolocation=()'',
      HeaderLine ''Content-Security-Policy'' csp]"

definition hsts_line :: wire where
  "hsts_line = HeaderLine ''Strict-Transport-Security'' ''max-age=31536000; includeSubDomains''"

definition header_block :: "bool option \<Rightarrow> wire list" where
  "header_block a = security_header_set @ (if a = Some True then [hsts_line] else [])"

fun is_body :: "wire \<Rightarrow> bool" where
  "is_body (BodyBytes b) = True"
| "is_body _ = False"

fun is_hsts :: "wire \<Rightarrow> bool" where
  "is_hsts (HeaderLine k v) = (k = ''Strict-Transport-Security'')"
| "is_hsts _ = False"

definition error_body :: "httpd \<Rightarrow> nat \<Rightarrow> string \<Rightarrow> string" where
  \<comment> \<open>the page of an error sent with a message of its own and the explanation that belongs
      to the code; no page for the codes that must not have a body\<close>
  "error_body E code message =
     (if code \<ge> 200 \<and> code \<notin> {204, 205, 304}
      then error_message_format E code message
             (case responses code of Some (s, l) \<Rightarrow> l | None \<Rightarrow> ''???'')
      else [])"

definition error_headers :: "httpd \<Rightarrow> nat \<Rightarrow> string \<Rightarrow> wire list" where
  "error_headers E code message =
     [StatusLine code message, HeaderLine ''Server'' (version_string E),
      HeaderLine ''Date'' (date_time_string E (date_now E)), HeaderLine ''Connection'' ''close''] @
     (if code \<ge> 200 \<and> code \<notin> {204, 205, 304}
      then [HeaderLine ''Content-Type'' ''text/html;charset=utf-8'',
            HeaderLine ''Content-Length'' (str_nat (length (error_body E code message)))]
      else [])"

definition error_payload :: "httpd \<Rightarrow> string option \<Rightarrow> nat \<Rightarrow> string \<Rightarrow> wire list" where
  "error_payload E cmd code message =
     (if cmd \<noteq> Some ''HEAD'' \<and> error_body E code message \<noteq> []
      then [BodyBytes (error_body E code message)] else [])"


definition carries_security_headers :: "bool option \<Rightarrow> wire list \<Rightarrow> bool" where
  "carries_security_headers https out \<longleftrightarrow>
     set security_header_set \<subseteq> set (takeWhile (\<lambda>w. \<not> is_body w) out) \<and>
     (list_ex is_hsts out \<longleftrightarrow> https = Some True)"

datatype resolution = NotFound | Forbidden | Resolved string node

definition opened :: "httpd \<Rightarrow> string \<Rightarrow> resolution" where
  "opened E p = (case open_rb E p of None \<Rightarrow> NotFound | Some f \<Rightarrow> Resolved p f)"

definition resolve_spec :: "httpd \<Rightarrow> string \<Rightarrow> resolution" where
  "resolve_spec E request_path =
     (let rp = (if request_path = [] \<or> request_path = ''/'' then ''/index.html'' else request_path);
          p = translate_path E rp
      in if \<not> os_path_exists E p then NotFound
         else if os_path_isdir E p
         then (if os_path_exists E (os_path_join p ''index.html'')
               then opened E (os_path_join p ''index.html'')
               else Forbidden)
         else opened E p)"

definition file_headers :: "httpd \<Rightarrow> string \<Rightarrow> node \<Rightarrow> wire list" where
  "file_headers E p f =
     [StatusLine 200 ''OK'',
      HeaderLine ''Server'' (version_string E),
      HeaderLine ''Date'' (date_time_string E (date_now E)),
      HeaderLine ''Content-type'' (fst (guess_type E p)),
      HeaderLine ''Content-Length'' (str_nat (st_size f)),
      HeaderLine ''Last-Modified'' (date_time_string E (st_mtime f)),
      HeaderLine ''Cache-Control''
        (if endswith_any p static_extensions then ''public, max-age=3600''
         else ''no-cache, no-store, must-revalidate'')]"

definition error_response :: "httpd \<Rightarrow> handler \<Rightarrow> nat \<Rightarrow> string \<Rightarrow> wire list" where
  "error_response E h code message =
     error_headers E code message @ header_block (is_https h) @ [BlankLine] @
     error_payload E (command h) code message"

definition reply_version :: "string \<Rightarrow> string" where
  \<comment> \<open>the request version under which the reply to a request line is written: empty for a
      line that is too long, the third or later last word when it is a version below 2.0,
      and \<open>HTTP/0.9\<close> for every other line\<close>
  "reply_version raw =
     (let words = str_split (rstrip raw [CHR 0x0D, CHR 0x0A])
      in if length raw > 65536 then []
         else if length words \<ge> 3 \<and>
                 (case version_number (last words) of
                    Some (major, minor) \<Rightarrow> major < 2
                  | None \<Rightarrow> False)
         then last words
         else ''HTTP/0.9'')"
definition override_table :: "(string \<times> string) list" where
  "override_table =
     [(''.html'', ''text/html; charset=utf-8''),
      (''.htm'', ''text/html; charset=utf-8''),
      (''.css'', ''text/css; charset=utf-8''),
      (''.js'', ''application/javascript; charset=utf-8''),
      (''.mjs'', ''application/javascript; charset=utf-8''),
      (''.json'', ''application/json; charset=utf-8''),
      (''.wasm'', ''application/wasm''),
      (''.ico'', ''image/x-icon''),
      (''.png'', ''image/png''),
      (''.jpg'', ''image/jpeg''),
      (''.jpeg'', ''image/jpeg''),
      (''.svg'', ''image/svg+xml''),
      (''.webp'', ''image/webp''),
      (''.mp4'', ''video/mp4''),
      (''.webm'', ''video/webm'')]"

definition ascii_lower :: "char \<Rightarrow> char" where
  "ascii_lower c =
     (case map_of (zip ''ABCDEFGHIJKLMNOPQRSTUVWXYZ'' ''abcdefghijklmnopqrstuvwxyz'') c of
        Some l \<Rightarrow> l
      | None \<Rightarrow> c)"

definition mimetypes_guess :: "string \<Rightarrow> guess" where
  "mimetypes_guess p =
     (let q = map ascii_lower p
      in if endswith q ''.html'' \<or> endswith q ''.htm'' then GuessStr ''text/html''
         else if endswith q ''.css'' then GuessStr ''text/css''
         else if endswith q ''.js'' then GuessStr ''application/javascript''
         else if endswith q ''.png'' then GuessStr ''image/png''
         else GuessStr ''application/octet-stream'')"

definition example_fs :: "string \<Rightarrow> node option" where
  "example_fs p =
     (if p = ''/srv/index.html'' then Some (File True 13 1700000000 ''<html></html>'')
      else if p = ''/srv/app.js'' then Some (File True 14 1700000001 ''console.log(1)'')
      else if p = ''/srv/styles.css'' then Some (File True 7 1700000002 ''body {}'')
      else if p = ''/srv/assets'' then Some Dir
      else None)"

definition example_httpd :: httpd where
  \<comment> \<open>a document root \<open>/srv\<close>; the error page is a stand-in for the library's HTML template,
      and \<open>repr\<close> is as Python gives it for text without quotes, backslashes or control
      characters\<close>
  "example_httpd =
     \<lparr>filesystem = example_fs,
      translate_path = (\<lambda>p. ''/srv'' @ p),
      super_guess_type = mimetypes_guess,
      date_time_string = str_nat,
      date_now = 1700000100,
      version_string = ''SimpleHTTP/0.6'',
      error_message_format = (\<lambda>code message explain. message @ '': '' @ explain),
      repr = (\<lambda>s. [CHR 0x27] @ s @ [CHR 0x27])\<rparr>"

definition example_request :: "string \<Rightarrow> string \<Rightarrow> handler" where
  \<comment> \<open>the handler as \<open>parse_request\<close> leaves it for an HTTP/1.1 request over TLS\<close>
  "example_request cmd p =
     \<lparr>path = p, command = Some cmd, request_version = ''HTTP/1.1'', is_https = Some True,
      headers_buffer = [], wfile = []\<rparr>"

definition example_connection :: handler where
  \<comment> \<open>the handler of a TLS connection before anything has been read\<close>
  "example_connection =
     \<lparr>path = [], command = None, request_version = [], is_https = Some True,
      headers_buffer = [], wfile = []\<rparr>"

definition request_line :: "string \<Rightarrow> request" where
  \<comment> \<open>a request line, ended by CR LF and followed by well-formed headers\<close>
  "request_line l = \<lparr>raw_requestline = l @ [CHR 0x0D, CHR 0x0A], header_lines = Headers\<rparr>"


subsection \<open>Observations on the server\<close>

definition native_ok :: "outcomes \<Rightarrow> bool" where
  \<comment> \<open>the first tier succeeds: no step of the native generator raises\<close>
  "native_ok M \<longleftrightarrow>
     import_cryptography M = None \<and> build_certificate M = None \<and>
     (case mkdtemp_first M of Inl e \<Rightarrow> False | Inr d \<Rightarrow> True) \<and>
     write_cert M = None \<and> write_key M = None"

definition openssl_ok :: "outcomes \<Rightarrow> bool" where
  \<comment> \<open>the second tier succeeds: the directory is made and both commands exit with 0\<close>
  "openssl_ok M \<longleftrightarrow>
     (case mkdtemp_second M of Inl e \<Rightarrow> False | Inr d \<Rightarrow> True) \<and>
     openssl_genrsa M = None \<and> openssl_req M = None"

definition generated_dir :: "outcomes \<Rightarrow> string" where
  \<comment> \<open>the directory of the tier that succeeds\<close>
  "generated_dir M =
     (case (if native_ok M then mkdtemp_first M else mkdtemp_second M) of
        Inr d \<Rightarrow> d | Inl e \<Rightarrow> [])"

definition fresh_dir :: "string \<Rightarrow> string set \<Rightarrow> bool" where
  \<comment> \<open>what \<open>mkdtemp\<close> promises of the directory it makes: nothing had that name, or a name
      under it\<close>
  "fresh_dir d fs \<longleftrightarrow> d \<noteq> [] \<and> (\<forall>p \<in> fs. \<not> prefix d p)"

fun runs :: "event list \<Rightarrow> string list list" where
  \<comment> \<open>the command lines run, in order\<close>
  "runs [] = []"
| "runs (Run argv # es) = argv # runs es"
| "runs (e # es) = runs es"

fun listenings :: "event list \<Rightarrow> (string \<times> nat) list" where
  \<comment> \<open>the listeners opened, in order\<close>
  "listenings [] = []"
| "listenings (Listening h p # es) = (h, p) # listenings es"
| "listenings (e # es) = listenings es"

definition openssl_commands :: "outcomes \<Rightarrow> string \<Rightarrow> string list list" where
  \<comment> \<open>RSA-2048, 365 days, self-signed, CN the host\<close>
  "openssl_commands M h =
     (case mkdtemp_second M of
        Inl e \<Rightarrow> []
      | Inr d \<Rightarrow>
          [''openssl'', ''genrsa'', ''-out'', os_path_join d ''key.pem'', ''2048''] #
          (if openssl_genrsa M = None
           then [[''openssl'', ''req'', ''-new'', ''-x509'', ''-key'', os_path_join d ''key.pem'',
                  ''-out'', os_path_join d ''cert.pem'', ''-days'', ''365'', ''-subj'',
                  ''/C=US/ST=Local/L=Local/O=WebRTC Dev Server/CN='' @ h]]
           else []))"

definition example_outcomes :: outcomes where
  \<comment> \<open>a machine on which every call succeeds and the user ends the server with Ctrl-C; the
      two readings of the clock are two microseconds apart, either side of a full second\<close>
  "example_outcomes =
     \<lparr>import_cryptography = None, build_certificate = None,
      mkdtemp_first = Inr ''/tmp/tmpa'', write_cert = None, write_key = None,
      mkdtemp_second = Inr ''/tmp/tmpb'', openssl_genrsa = None, openssl_req = None,
      bind = None, tls_setup = None, serve_forever = KeyboardInterrupt,
      utcnow_first = 1700000000999999, utcnow_second = 1700000001000001,
      getsockname = Some ''192.168.1.20'', ip_address = (\<lambda>a. a \<noteq> ''localhost'')\<rparr>"

definition example_files :: "string set" where
  "example_files = {''index.html'', ''webrtc.js'', ''styles.css'', ''my.crt'', ''my.key''}"

definition example_args :: args where
  "example_args =
     \<lparr>args_port = 8443, args_host = ''localhost'', network = False,
      cert = None, key = None, install_deps = False\<rparr>"

definition example_server :: "string option \<Rightarrow> string option \<Rightarrow> state" where
  "example_server c k = SecureWebRTCServer 8443 ''localhost'' c k example_files"

definition no_generator_outcomes :: outcomes where
  \<comment> \<open>neither the cryptography package nor the \<open>openssl\<close> program is installed\<close>
  "no_generator_outcomes =
     example_outcomes\<lparr>import_cryptography := Some ImportError,
                       openssl_genrsa := Some FileNotFoundError\<rparr>"

definition tls_failure_outcomes :: outcomes where
  \<comment> \<open>the port is bound, then the TLS set-up raises before the serving loop is entered\<close>
  "tls_failure_outcomes = example_outcomes\<lparr>tls_setup := Some (SSLError ''SSL error'')\<rparr>"

definition disk_full_outcomes :: outcomes where
  \<comment> \<open>writing the certificate fails in the native generator; OpenSSL then succeeds\<close>
  "disk_full_outcomes =
     example_outcomes\<lparr>write_cert := Some (OSError 28 ''No space left on device'')\<rparr>"
section \<open>Lemmas about the handler\<close>

lemma send_header_fields [simp]:
  "wfile (send_header k v h) = wfile h"
  "path (send_header k v h) = path h"
  "command (send_header k v h) = command h"
  "is_https (send_header k v h) = is_https h"
  "request_version (send_header k v h) = request_version h"
  by (simp_all add: send_header_def)

lemma send_header_buffer [simp]:
  "request_version h \<noteq> ''HTTP/0.9'' \<Longrightarrow>
   headers_buffer (send_header k v h) = headers_buffer h @ [HeaderLine k v]"
  by (simp add: send_header_def)

lemma send_header_09: "request_version h = ''HTTP/0.9'' \<Longrightarrow> send_header k v h = h"
  by (simp add: send_header_def)

lemma super_end_headers_fields [simp]:
  "path (super_end_headers h) = path h"
  "command (super_end_headers h) = command h"
  "is_https (super_end_headers h) = is_https h"
  "request_version (super_end_headers h) = request_version h"
  by (simp_all add: super_end_headers_def flush_headers_def)

lemma super_end_headers_buffer [simp]:
  assumes "request_version h \<noteq> ''HTTP/0.9''"
  shows "headers_buffer (super_end_headers h) = []"
    and "wfile (super_end_headers h) = wfile h @ headers_buffer h @ [BlankLine]"
  using assms by (simp_all add: super_end_headers_def flush_headers_def)

lemma super_end_headers_09:
  "request_version h = ''HTTP/0.9'' \<Longrightarrow> super_end_headers h = h"
  by (simp add: super_end_headers_def)

lemma end_headers_wfile:
  assumes "request_version h \<noteq> ''HTTP/0.9''"
  shows "wfile (end_headers h) =
           wfile h @ headers_buffer h @ header_block (is_https h) @ [BlankLine]"
proof (cases "is_https h = Some True")
  case True
  then show ?thesis
    unfolding end_headers_def Let_def header_block_def security_header_set_def hsts_line_def
    using assms
    by (simp only: send_header_fields send_header_buffer super_end_headers_fields
        super_end_headers_buffer append_assoc append_Cons append_Nil if_True simp_thms
        not_False_eq_True)
next
  case False
  then show ?thesis
    unfolding end_headers_def Let_def header_block_def security_header_set_def hsts_line_def
    using assms
    by (simp only: send_header_fields send_header_buffer super_end_headers_fields
        super_end_headers_buffer append_assoc append_Cons append_Nil if_False simp_thms
        not_False_eq_True)
qed

lemma end_headers_09: "request_version h = ''HTTP/0.9'' \<Longrightarrow> end_headers h = h"
  unfolding end_headers_def Let_def
  by (simp only: send_header_09 super_end_headers_09 if_cancel)

lemma end_headers_fields [simp]:
  "path (end_headers h) = path h"
  "command (end_headers h) = command h"
  "is_https (end_headers h) = is_https h"
  "request_version (end_headers h) = request_version h"
  unfolding end_headers_def Let_def
  by (simp_all only: send_header_fields super_end_headers_fields if_distrib [of path]
      if_distrib [of command] if_distrib [of is_https] if_distrib [of request_version]
      if_cancel)

lemma end_headers_buffer [simp]:
  "request_version h \<noteq> ''HTTP/0.9'' \<Longrightarrow> headers_buffer (end_headers h) = []"
  unfolding end_headers_def Let_def
  by (simp only: send_header_fields super_end_headers_buffer if_distrib [of request_version]
      if_cancel not_False_eq_True simp_thms)

lemma send_response_fields [simp]:
  "wfile (send_response E code m h) = wfile h"
  "path (send_response E code m h) = path h"
  "command (send_response E code m h) = command h"
  "is_https (send_response E code m h) = is_https h"
  "request_version (send_response E code m h) = request_version h"
  by (simp_all add: send_response_def send_response_only_def Let_def)

lemma send_response_buffer [simp]:
  "request_version h \<noteq> ''HTTP/0.9'' \<Longrightarrow>
   headers_buffer (send_response E code m h) =
     headers_buffer h @
       [StatusLine code (case m of Some m \<Rightarrow> m
                         | None \<Rightarrow> (case responses code of Some (s, l) \<Rightarrow> s | None \<Rightarrow> [])),
        HeaderLine ''Server'' (version_string E),
        HeaderLine ''Date'' (date_time_string E (date_now E))]"
  by (simp add: send_response_def send_response_only_def Let_def)

lemma send_response_09:
  "request_version h = ''HTTP/0.9'' \<Longrightarrow> send_response E code m h = h"
  by (simp add: send_response_def send_response_only_def send_header_09)

lemma responses_default:
  "snd (case responses code of None \<Rightarrow> (a, b) | Some sl \<Rightarrow> sl) =
     (case responses code of Some (s, l) \<Rightarrow> l | None \<Rightarrow> b)"
  "fst (case responses code of None \<Rightarrow> (a, b) | Some sl \<Rightarrow> sl) =
     (case responses code of Some (s, l) \<Rightarrow> s | None \<Rightarrow> a)"
  by (simp_all split: option.split)

lemma send_error_fields [simp]:
  "path (send_error E code message explain h) = path h"
  "command (send_error E code message explain h) = command h"
  "is_https (send_error E code message explain h) = is_https h"
  "request_version (send_error E code message explain h) = request_version h"
  by (simp_all add: send_error_def Let_def case_prod_beta)

lemma send_error_wfile:
  assumes "request_version h \<noteq> ''HTTP/0.9''"
  shows "wfile (send_error E code (Some message) None h) =
     wfile h @ headers_buffer h @ error_headers E code message @
       header_block (is_https h) @ [BlankLine] @ error_payload E (command h) code message"
  using assms
  by (simp add: send_error_def Let_def case_prod_beta responses_default end_headers_wfile
      error_headers_def error_payload_def error_body_def)

lemma send_error_buffer [simp]:
  "request_version h \<noteq> ''HTTP/0.9'' \<Longrightarrow>
   headers_buffer (send_error E code message explain h) = []"
  by (simp add: send_error_def Let_def case_prod_beta)

lemma send_error_09:
  assumes "request_version h = ''HTTP/0.9''"
  shows "\<exists>body. wfile (send_error E code message explain h) = wfile h @ body \<and>
           list_all is_body body"
    and "headers_buffer (send_error E code message explain h) = headers_buffer h"
  using assms
  by (simp_all add: send_error_def Let_def case_prod_beta send_response_09 send_header_09
      end_headers_09)

lemma security_header_set_plain:
  "list_all (\<lambda>w. \<not> is_body w) security_header_set"
  "\<not> list_ex is_hsts security_header_set"
  by (simp_all add: security_header_set_def)

lemma carries_shape:
  assumes "out = pre @ header_block a @ [BlankLine] @ body"
    and "list_all (\<lambda>w. \<not> is_body w) pre"
    and "\<not> list_ex is_hsts pre" and "\<not> list_ex is_hsts body"
  shows "carries_security_headers a out"
proof -
  have 1: "takeWhile (\<lambda>w. \<not> is_body w) out
             = pre @ security_header_set @ takeWhile (\<lambda>w. \<not> is_body w)
                 ((if a = Some True then [hsts_line] else []) @ [BlankLine] @ body)"
    using assms(2) security_header_set_plain(1)
    by (simp add: assms(1) header_block_def takeWhile_append2 list_all_iff)
  have 2: "list_ex is_hsts out \<longleftrightarrow> a = Some True"
    using assms(3,4) security_header_set_plain(2)
    by (auto simp: assms(1) header_block_def list_ex_iff hsts_line_def)
  show ?thesis
    unfolding carries_security_headers_def using 2 by (auto simp: 1)
qed

lemma path_cases:
  obtains (root) "path h = ''/''" | (empty) "path h = []" | (other) "path h \<noteq> ''/''" "path h \<noteq> []"
  by blast

lemma send_head_fields [simp]:
  "is_https (fst (send_head E h)) = is_https h"
  "request_version (fst (send_head E h)) = request_version h"
  "command (fst (send_head E h)) = command h"
  "path (fst (send_head E h)) = (if path h = ''/'' \<or> path h = [] then ''/index.html'' else path h)"
  by (cases h rule: path_cases; simp add: send_head_def Let_def split: option.split)+

lemma send_head_snd:
  "snd (send_head E h) =
     (case resolve_spec E (path h) of
        NotFound \<Rightarrow> None | Forbidden \<Rightarrow> None | Resolved p f \<Rightarrow> Some (p, f))"
  by (cases h rule: path_cases)
     (simp_all add: send_head_def resolve_spec_def opened_def Let_def split: option.split)

lemma send_head_result:
  assumes "headers_buffer h = []" and "wfile h = []" and "request_version h \<noteq> ''HTTP/0.9''"
  shows "case resolve_spec E (path h) of
           NotFound \<Rightarrow>
             snd (send_head E h) = None \<and>
             wfile (fst (send_head E h)) = error_response E h 404 ''File not found''
         | Forbidden \<Rightarrow>
             snd (send_head E h) = None \<and>
             wfile (fst (send_head E h)) = error_response E h 403 ''Directory listing not allowed''
         | Resolved p f \<Rightarrow>
             snd (send_head E h) = Some (p, f) \<and>
             wfile (fst (send_head E h)) = file_headers E p f @ header_block (is_https h) @ [BlankLine]"
  using assms
  by (cases h rule: path_cases)
     (simp_all add: send_head_def resolve_spec_def opened_def Let_def send_error_wfile
      end_headers_wfile error_response_def file_headers_def responses_def
      split: option.split)

lemma send_error_09_wfile:
  assumes "request_version h = ''HTTP/0.9''"
  shows "wfile (send_error E code (Some message) None h) =
           wfile h @ error_payload E (command h) code message"
  using assms
  by (simp add: send_error_def Let_def case_prod_beta responses_default send_response_09
      send_header_09 end_headers_09 error_payload_def error_body_def)

lemma send_head_09:
  assumes "wfile h = []" and "request_version h = ''HTTP/0.9''"
  shows "wfile (fst (send_head E h)) =
     (case resolve_spec E (path h) of
        NotFound \<Rightarrow> error_payload E (command h) 404 ''File not found''
      | Forbidden \<Rightarrow> error_payload E (command h) 403 ''Directory listing not allowed''
      | Resolved p f \<Rightarrow> [])"
  using assms
  by (cases h rule: path_cases)
     (simp_all add: send_head_def resolve_spec_def opened_def Let_def send_error_09_wfile
      send_response_09 send_header_09 end_headers_09 split: option.split)

lemma error_response_carries:
  "carries_security_headers (is_https h) (error_response E h code message)"
  by (rule carries_shape [where pre = "error_headers E code message"
        and body = "error_payload E (command h) code message"])
     (simp_all add: error_response_def error_headers_def error_payload_def)

lemma error_payload_body: "list_all is_body (error_payload E cmd code message)"
  by (simp add: error_payload_def)

lemma file_response_carries:
  "carries_security_headers a (file_headers E p f @ header_block a @ [BlankLine])"
  "carries_security_headers a (file_headers E p f @ header_block a @ [BlankLine, BodyBytes c])"
  using carries_shape [where pre = "file_headers E p f" and body = "[]" and a = a, OF refl]
    carries_shape [where pre = "file_headers E p f" and body = "[BodyBytes c]" and a = a, OF refl]
  by (simp_all add: file_headers_def)

lemma send_error_response:
  "headers_buffer h = [] \<Longrightarrow> wfile h = [] \<Longrightarrow> request_version h \<noteq> ''HTTP/0.9'' \<Longrightarrow>
   wfile (send_error E code (Some message) None h) = error_response E h code message"
  by (simp add: send_error_wfile error_response_def)

lemma send_error_carries:
  assumes "headers_buffer h = []" and "wfile h = []" and "request_version h \<noteq> ''HTTP/0.9''"
  shows "carries_security_headers (is_https h) (wfile (send_error E code message explain h))"
proof -
  let ?m = "case message of None \<Rightarrow> fst (case responses code of None \<Rightarrow> (''???'', ''???'')
                                           | Some sl \<Rightarrow> sl)
            | Some m \<Rightarrow> m"
  let ?x = "case explain of None \<Rightarrow> snd (case responses code of None \<Rightarrow> (''???'', ''???'')
                                           | Some sl \<Rightarrow> sl)
            | Some x \<Rightarrow> x"
  let ?hb = "code \<ge> 200 \<and> code \<notin> {204, 205, 304}"
  let ?body = "if ?hb then error_message_format E code ?m ?x else []"
  let ?pre = "[StatusLine code ?m, HeaderLine ''Server'' (version_string E),
      HeaderLine ''Date'' (date_time_string E (date_now E)), HeaderLine ''Connection'' ''close''] @
     (if ?hb then [HeaderLine ''Content-Type'' ''text/html;charset=utf-8'',
                   HeaderLine ''Content-Length'' (str_nat (length ?body))] else [])"
  let ?tail = "if command h \<noteq> Some ''HEAD'' \<and> ?body \<noteq> [] then [BodyBytes ?body] else []"
  have w: "wfile (send_error E code message explain h) =
      ?pre @ header_block (is_https h) @ [BlankLine] @ ?tail"
    using assms by (simp add: send_error_def Let_def case_prod_beta end_headers_wfile)
  show ?thesis
    by (rule carries_shape [OF w]) simp_all
qed

lemma do_OPTIONS_wfile:
  "headers_buffer h = [] \<Longrightarrow> wfile h = [] \<Longrightarrow> request_version h \<noteq> ''HTTP/0.9'' \<Longrightarrow>
   wfile (do_OPTIONS E h) =
     [StatusLine 200 ''OK'', HeaderLine ''Server'' (version_string E),
      HeaderLine ''Date'' (date_time_string E (date_now E))] @
     header_block (is_https h) @ [BlankLine]"
  by (simp add: do_OPTIONS_def end_headers_wfile responses_def)

lemma do_OPTIONS_09: "request_version h = ''HTTP/0.9'' \<Longrightarrow> do_OPTIONS E h = h"
  by (simp add: do_OPTIONS_def send_response_09 end_headers_09)

lemma do_GET_wfile:
  assumes "headers_buffer h = []" and "wfile h = []" and "request_version h \<noteq> ''HTTP/0.9''"
  shows "wfile (do_GET E h) =
     (case resolve_spec E (path h) of
        NotFound \<Rightarrow> error_response E h 404 ''File not found''
      | Forbidden \<Rightarrow> error_response E h 403 ''Directory listing not allowed''
      | Resolved p f \<Rightarrow>
          file_headers E p f @ header_block (is_https h) @ [BlankLine] @ [BodyBytes (content f)])"
  using send_head_result [OF assms, of E]
  by (cases "resolve_spec E (path h)"; cases "send_head E h") (simp_all add: do_GET_def)

lemma do_GET_09:
  assumes "wfile h = []" and "request_version h = ''HTTP/0.9''"
  shows "wfile (do_GET E h) =
     (case resolve_spec E (path h) of
        NotFound \<Rightarrow> error_payload E (command h) 404 ''File not found''
      | Forbidden \<Rightarrow> error_payload E (command h) 403 ''Directory listing not allowed''
      | Resolved p f \<Rightarrow> [BodyBytes (content f)])"
  using send_head_09 [OF assms, of E] send_head_snd [of E h]
  by (cases "resolve_spec E (path h)"; cases "send_head E h") (simp_all add: do_GET_def)

lemma do_HEAD_wfile:
  assumes "headers_buffer h = []" and "wfile h = []" and "request_version h \<noteq> ''HTTP/0.9''"
  shows "wfile (do_HEAD E h) =
     (case resolve_spec E (path h) of
        NotFound \<Rightarrow> error_response E h 404 ''File not found''
      | Forbidden \<Rightarrow> error_response E h 403 ''Directory listing not allowed''
      | Resolved p f \<Rightarrow> file_headers E p f @ header_block (is_https h) @ [BlankLine])"
  using send_head_result [OF assms, of E]
  by (cases "resolve_spec E (path h)") (simp_all add: do_HEAD_def)


lemma endswith_append [simp]:
  "endswith (s @ a # as) (b # bs) \<longleftrightarrow> prefix (rev (b # bs)) (rev (a # as) @ rev s)"
  by (simp add: endswith_def suffix_to_prefix)

lemma guess_type_overrides:
  "fst (guess_type E (stem @ ''.html'')) = ''text/html; charset=utf-8''"
  "fst (guess_type E (stem @ ''.htm'')) = ''text/html; charset=utf-8''"
  "fst (guess_type E (stem @ ''.css'')) = ''text/css; charset=utf-8''"
  "fst (guess_type E (stem @ ''.js'')) = ''application/javascript; charset=utf-8''"
  "fst (guess_type E (stem @ ''.mjs'')) = ''application/javascript; charset=utf-8''"
  "fst (guess_type E (stem @ ''.json'')) = ''application/json; charset=utf-8''"
  "fst (guess_type E (stem @ ''.wasm'')) = ''application/wasm''"
  "fst (guess_type E (stem @ ''.ico'')) = ''image/x-icon''"
  "fst (guess_type E (stem @ ''.png'')) = ''image/png''"
  "fst (guess_type E (stem @ ''.jpg'')) = ''image/jpeg''"
  "fst (guess_type E (stem @ ''.jpeg'')) = ''image/jpeg''"
  "fst (guess_type E (stem @ ''.svg'')) = ''image/svg+xml''"
  "fst (guess_type E (stem @ ''.webp'')) = ''image/webp''"
  "fst (guess_type E (stem @ ''.mp4'')) = ''video/mp4''"
  "fst (guess_type E (stem @ ''.webm'')) = ''video/webm''"
  by (simp_all add: guess_type_def split: guess.split)


lemma guess_type_fallback:
  "\<not> list_ex (endswith p) (map fst override_table) \<Longrightarrow>
   fst (guess_type E p) = (case super_guess_type E p of GuessStr m \<Rightarrow> m | GuessTuple m e \<Rightarrow> m)"
  by (simp add: guess_type_def override_table_def split: guess.split)




lemma send_error_reply:
  assumes "headers_buffer h = []" and "wfile h = []"
  shows "if request_version h = ''HTTP/0.9''
         then list_all is_body (wfile (send_error E code message explain h))
         else carries_security_headers (is_https h) (wfile (send_error E code message explain h))"
  using send_error_carries [OF assms, of E code message explain]
    send_error_09(1) [of h E code message explain] assms(2)
  by auto

lemma do_GET_reply:
  assumes "headers_buffer h = []" and "wfile h = []"
  shows "if request_version h = ''HTTP/0.9''
         then list_all is_body (wfile (do_GET E h))
         else carries_security_headers (is_https h) (wfile (do_GET E h))"
proof (cases "request_version h = ''HTTP/0.9''")
  case True
  then show ?thesis
    by (cases "resolve_spec E (path h)")
       (simp_all add: do_GET_09 [OF assms(2)] error_payload_body)
next
  case False
  then show ?thesis
    using file_response_carries(2)
    by (cases "resolve_spec E (path h)")
       (simp_all add: do_GET_wfile [OF assms] error_response_carries)
qed

lemma do_HEAD_reply:
  assumes "headers_buffer h = []" and "wfile h = []"
  shows "if request_version h = ''HTTP/0.9''
         then list_all is_body (wfile (do_HEAD E h))
         else carries_security_headers (is_https h) (wfile (do_HEAD E h))"
proof (cases "request_version h = ''HTTP/0.9''")
  case True
  then show ?thesis
    by (cases "resolve_spec E (path h)")
       (simp_all add: do_HEAD_def send_head_09 [OF assms(2)] error_payload_body)
next
  case False
  then show ?thesis
    by (cases "resolve_spec E (path h)")
       (simp_all add: do_HEAD_wfile [OF assms] error_response_carries file_response_carries)
qed

lemma do_OPTIONS_carries:
  assumes "headers_buffer h = []" and "wfile h = []" and "request_version h \<noteq> ''HTTP/0.9''"
  shows "carries_security_headers (is_https h) (wfile (do_OPTIONS E h))"
  unfolding do_OPTIONS_wfile [OF assms]
  by (rule carries_shape [where pre = "[StatusLine 200 ''OK'',
        HeaderLine ''Server'' (version_string E),
        HeaderLine ''Date'' (date_time_string E (date_now E))]" and body = "[]"]) simp_all

lemma do_OPTIONS_reply:
  assumes "headers_buffer h = []" and "wfile h = []"
  shows "if request_version h = ''HTTP/0.9''
         then list_all is_body (wfile (do_OPTIONS E h))
         else carries_security_headers (is_https h) (wfile (do_OPTIONS E h))"
  using do_OPTIONS_carries [OF assms, of E] assms(2)
  by (simp add: do_OPTIONS_09)

lemma parse_request_fields [simp]:
  "is_https (snd (parse_request E rq h)) = is_https h"
  by (simp add: parse_request_def Let_def split: header_section.split)

lemma parse_request_version:
  assumes "length (raw_requestline rq) \<le> 65536"
  shows "request_version (snd (parse_request E rq h)) = reply_version (raw_requestline rq)"
  using assms
  by (cases "version_number (last (str_split (rstrip (raw_requestline rq) [CHR 0x0D, CHR 0x0A])))")
     (auto simp: parse_request_def reply_version_def Let_def split: header_section.split)

lemma parse_request_cases:
  obtains (blank) "parse_request E rq h = (False, h\<lparr>command := None, request_version := ''HTTP/0.9''\<rparr>)"
  | (error) k code message explain
      where "parse_request E rq h = (False, send_error E code message explain k)"
        and "headers_buffer k = headers_buffer h" and "wfile k = wfile h"
        and "is_https k = is_https h"
  | (accept) k
      where "parse_request E rq h = (True, k)"
        and "headers_buffer k = headers_buffer h" and "wfile k = wfile h"
proof -
  let ?w = "str_split (rstrip (raw_requestline rq) [CHR 0x0D, CHR 0x0A])"
  let ?k = "h\<lparr>command := None, request_version := ''HTTP/0.9''\<rparr>"
  let ?v = "?k\<lparr>request_version := last ?w\<rparr>"
  have rest: thesis
    if eq: "parse_request E rq h =
        (let h = k\<lparr>command := Some (?w ! 0), path := ?w ! 1\<rparr>;
             h = (if startswith (path h) ''//''
                  then h\<lparr>path := ''/'' @ lstrip (path h) ''/''\<rparr> else h)
         in case header_lines rq of
              LineTooLong err \<Rightarrow> (False, send_error E 431 (Some ''Line too long'') (Some err) h)
            | HTTPException err \<Rightarrow>
                (False, send_error E 431 (Some ''Too many headers'') (Some err) h)
            | Headers \<Rightarrow> (True, h))"
      and k: "headers_buffer k = headers_buffer h" "wfile k = wfile h" "is_https k = is_https h"
    for k
  proof (cases "header_lines rq")
    case Headers
    show thesis
      by (rule accept [OF eq [unfolded Headers Let_def header_section.case]])
         (simp_all add: k)
  next
    case (LineTooLong err)
    show thesis
      by (rule error [OF eq [unfolded LineTooLong Let_def header_section.case]])
         (simp_all add: k)
  next
    case (HTTPException err)
    show thesis
      by (rule error [OF eq [unfolded HTTPException Let_def header_section.case]])
         (simp_all add: k)
  qed
  consider (none) "length ?w = 0"
    | (one) "length ?w = 1"
    | (two_bad) "length ?w = 2" "?w ! 0 \<noteq> ''GET''"
    | (two) "length ?w = 2" "?w ! 0 = ''GET''"
    | (bad_version) "length ?w \<ge> 3" "version_number (last ?w) = None"
    | (unsupported) "length ?w \<ge> 3" "version_number (last ?w) \<noteq> None"
        "fst (the (version_number (last ?w))) \<ge> 2"
    | (many) "length ?w \<ge> 4" "version_number (last ?w) \<noteq> None"
        "\<not> fst (the (version_number (last ?w))) \<ge> 2"
    | (three) "length ?w = 3" "version_number (last ?w) \<noteq> None"
        "\<not> fst (the (version_number (last ?w))) \<ge> 2"
    by atomize_elim linarith
  then show thesis
  proof cases
    case none
    then have "parse_request E rq h = (False, ?k)"
      by (simp add: parse_request_def Let_def del: length_0_conv)
    then show thesis by (rule blank)
  next
    case one
    then have "parse_request E rq h =
        (False, send_error E 400
           (Some (''Bad request syntax ('' @
                  repr E (rstrip (raw_requestline rq) [CHR 0x0D, CHR 0x0A]) @ '')'')) None ?k)"
      by (simp add: parse_request_def Let_def del: length_0_conv)
    then show thesis by (rule error) simp_all
  next
    case two_bad
    then have "parse_request E rq h =
        (False, send_error E 400
           (Some (''Bad HTTP/0.9 request type ('' @ repr E (?w ! 0) @ '')'')) None ?k)"
      by (simp add: parse_request_def Let_def del: length_0_conv)
    then show thesis by (rule error) simp_all
  next
    case two
    show thesis
      by (rule rest [of ?k]) (simp_all add: parse_request_def Let_def two del: length_0_conv cong: header_section.case_cong)
  next
    case bad_version
    then have "parse_request E rq h =
        (False, send_error E 400
           (Some (''Bad request version ('' @ repr E (last ?w) @ '')'')) None ?k)"
      by (simp add: parse_request_def Let_def del: length_0_conv)
    then show thesis by (rule error) simp_all
  next
    case unsupported
    then have "parse_request E rq h =
        (False, send_error E 505
           (Some (''Invalid HTTP version ('' @ drop 5 (last ?w) @ '')'')) None ?k)"
      by (auto simp add: parse_request_def Let_def simp del: length_0_conv)
    then show thesis by (rule error) simp_all
  next
    case many
    then have "parse_request E rq h =
        (False, send_error E 400
           (Some (''Bad request syntax ('' @
                  repr E (rstrip (raw_requestline rq) [CHR 0x0D, CHR 0x0A]) @ '')'')) None ?v)"
      by (auto simp add: parse_request_def Let_def simp del: length_0_conv)
    then show thesis by (rule error) simp_all
  next
    case three
    show thesis
      by (rule rest [of ?v]) (use three in \<open>auto simp add: parse_request_def Let_def simp del: length_0_conv
          cong: header_section.case_cong\<close>)
  qed
qed

lemma parse_request_accepts:
  assumes "headers_buffer h = []" and "wfile h = []" and "fst (parse_request E rq h)"
  shows "headers_buffer (snd (parse_request E rq h)) = []"
    and "wfile (snd (parse_request E rq h)) = []"
  using assms by (cases E rq h rule: parse_request_cases; simp)+

lemma parse_request_rejects:
  assumes "headers_buffer h = []" and "wfile h = []" and "\<not> fst (parse_request E rq h)"
  shows "if request_version (snd (parse_request E rq h)) = ''HTTP/0.9''
         then list_all is_body (wfile (snd (parse_request E rq h)))
         else carries_security_headers (is_https h) (wfile (snd (parse_request E rq h)))"
proof (cases E rq h rule: parse_request_cases)
  case blank
  then show ?thesis using assms(2) by simp
next
  case (error k code message explain)
  have k: "headers_buffer k = []" "wfile k = []"
    using error assms by simp_all
  show ?thesis
    using send_error_reply [OF k, of E code message explain]
    unfolding error(4) by (simp add: error(1))
next
  case (accept k)
  then show ?thesis using assms(3) by simp
qed

lemma handle_one_request_reply:
  assumes "headers_buffer h = []" and "wfile h = []"
  shows "if reply_version (raw_requestline rq) = ''HTTP/0.9''
         then list_all is_body (wfile (handle_one_request E rq h))
         else carries_security_headers (is_https h) (wfile (handle_one_request E rq h))"
proof -
  consider (long) "length (raw_requestline rq) > 65536"
    | (nothing) "raw_requestline rq = []"
    | (line) "length (raw_requestline rq) \<le> 65536" "raw_requestline rq \<noteq> []"
    by fastforce
  then show ?thesis
  proof cases
    case long
    then show ?thesis
      using send_error_carries [of "h\<lparr>request_version := [], command := Some []\<rparr>" E 414 None None]
        assms
      by (simp add: handle_one_request_def reply_version_def Let_def)
  next
    case nothing
    then show ?thesis
      using assms
      by (simp add: handle_one_request_def reply_version_def Let_def str_split_def rstrip_def
          split_where_def)
  next
    case line
    let ?p = "parse_request E rq h"
    have v: "reply_version (raw_requestline rq) = request_version (snd ?p)"
      by (rule parse_request_version [OF line(1), symmetric])
    have a: "is_https h = is_https (snd ?p)"
      by simp
    show ?thesis
    proof (cases "fst ?p")
      case False
      then have "handle_one_request E rq h = snd ?p"
        using line by (cases ?p) (simp add: handle_one_request_def)
      then show ?thesis
        using parse_request_rejects [OF assms False] v by simp
    next
      case True
      note f = parse_request_accepts [OF assms True]
      have d: "handle_one_request E rq h =
          (if command (snd ?p) = Some ''GET'' then do_GET E (snd ?p)
           else if command (snd ?p) = Some ''HEAD'' then do_HEAD E (snd ?p)
           else if command (snd ?p) = Some ''OPTIONS'' then do_OPTIONS E (snd ?p)
           else send_error E 501
                  (Some (''Unsupported method ('' @ repr E (the (command (snd ?p))) @ '')''))
                  None (snd ?p))"
        using line True by (cases ?p) (simp add: handle_one_request_def)
      show ?thesis
      proof (cases "command (snd ?p) = Some ''GET''")
        case True
        then have e: "handle_one_request E rq h = do_GET E (snd ?p)"
          by (simp add: d)
        show ?thesis unfolding e v a by (rule do_GET_reply [OF f])
      next
        case not_get: False
        show ?thesis
        proof (cases "command (snd ?p) = Some ''HEAD''")
          case True
          then have e: "handle_one_request E rq h = do_HEAD E (snd ?p)"
            by (simp add: d)
          show ?thesis unfolding e v a by (rule do_HEAD_reply [OF f])
        next
          case not_head: False
          show ?thesis
          proof (cases "command (snd ?p) = Some ''OPTIONS''")
            case True
            then have e: "handle_one_request E rq h = do_OPTIONS E (snd ?p)"
              by (simp add: d)
            show ?thesis unfolding e v a by (rule do_OPTIONS_reply [OF f])
          next
            case False
            with not_get not_head have e: "handle_one_request E rq h =
                send_error E 501
                  (Some (''Unsupported method ('' @ repr E (the (command (snd ?p))) @ '')''))
                  None (snd ?p)"
              by (simp only: d if_False)
            show ?thesis unfolding e v a by (rule send_error_reply [OF f])
          qed
        qed
      qed
    qed
  qed
qed

lemma example_str_split:
  "str_split (rstrip (''GET /app.js'' @ [CHR 0x0D, CHR 0x0A]) [CHR 0x0D, CHR 0x0A]) =
     [''GET'', ''/app.js'']"
  "str_split (rstrip (''GET / HTTP/1.1'' @ [CHR 0x0D, CHR 0x0A]) [CHR 0x0D, CHR 0x0A]) =
     [''GET'', ''/'', ''HTTP/1.1'']"
  by (simp_all add: str_split_def rstrip_def split_where_def isspace_def)

lemma example_version_number: "version_number ''HTTP/1.1'' = Some (1, 1)"
  by (simp add: version_number_def startswith_def split_on_def split_where_def isdigit_def
      int_of_str_def Let_def)

lemma example_reply_version:
  "reply_version (''GET /app.js'' @ [CHR 0x0D, CHR 0x0A]) = ''HTTP/0.9''"
  "reply_version (''GET / HTTP/1.1'' @ [CHR 0x0D, CHR 0x0A]) = ''HTTP/1.1''"
  unfolding reply_version_def Let_def example_str_split
  by (simp_all add: example_version_number)

lemma example_parse_http09:
  "parse_request example_httpd (request_line ''GET /app.js'') example_connection =
     (True, \<lparr>path = ''/app.js'', command = Some ''GET'', request_version = ''HTTP/0.9'',
             is_https = Some True, headers_buffer = [], wfile = []\<rparr>)"
  unfolding parse_request_def request_line_def Let_def request.select_convs example_str_split
  by (simp add: example_connection_def startswith_def)

lemma example_resolve_app_js:
  "resolve_spec example_httpd ''/app.js'' =
     Resolved ''/srv/app.js'' (File True 14 1700000001 ''console.log(1)'')"
  by (simp add: resolve_spec_def example_httpd_def example_fs_def os_path_exists_def
      os_path_isdir_def opened_def open_rb_def)

lemma example_http09_reply:
  "wfile (handle_one_request example_httpd (request_line ''GET /app.js'') example_connection) =
     [BodyBytes ''console.log(1)'']"
proof -
  let ?h = "\<lparr>path = ''/app.js'', command = Some ''GET'', request_version = ''HTTP/0.9'',
             is_https = Some True, headers_buffer = [], wfile = []\<rparr>"
  have "handle_one_request example_httpd (request_line ''GET /app.js'') example_connection =
      do_GET example_httpd ?h"
    by (simp add: handle_one_request_def example_parse_http09) (simp add: request_line_def)
  then show ?thesis
    using do_GET_09 [of ?h example_httpd] by (simp add: example_resolve_app_js)
qed

lemma example_open_index:
  "open_rb example_httpd (translate_path example_httpd ''/index.html'') =
     Some (File True 13 1700000000 ''<html></html>'')"
  by (simp add: example_httpd_def example_fs_def open_rb_def)


section \<open>Lemmas about the server\<close>

lemma runs_append [simp]: "runs (xs @ ys) = runs xs @ runs ys"
  by (induction xs rule: runs.induct) simp_all

lemma listenings_append [simp]: "listenings (xs @ ys) = listenings xs @ listenings ys"
  by (induction xs rule: listenings.induct) simp_all

lemmas state_ops = log_def create_def use_temp_dir_def unlink_def

lemma openssl_except_fields [simp]:
  "trace (snd (openssl_except e s)) = trace s"
  "files (snd (openssl_except e s)) = files s"
  "fst (openssl_except e s) \<noteq> Inr True"
  by (simp_all add: openssl_except_def)

lemma native_generation_result:
  "fst (native_generation M s) = None \<longleftrightarrow> native_ok M"
  by (simp add: native_generation_def native_ok_def Let_def
      split: option.split sum.split)

lemma native_generation_keeps:
  "host (snd (native_generation M s)) = host s"
  "port (snd (native_generation M s)) = port s"
  "server (snd (native_generation M s)) = server s"
  "runs (trace (snd (native_generation M s))) = runs (trace s)"
  "listenings (trace (snd (native_generation M s))) = listenings (trace s)"
  by (simp_all add: native_generation_def Let_def state_ops split: option.split sum.split)

lemma openssl_result:
  "fst (generate_cert_with_openssl M s) = Inr True \<longleftrightarrow> openssl_ok M"
  by (simp add: generate_cert_with_openssl_def openssl_ok_def Let_def
      split: option.split sum.split)

lemma openssl_keeps:
  "host (snd (generate_cert_with_openssl M s)) = host s"
  "port (snd (generate_cert_with_openssl M s)) = port s"
  "server (snd (generate_cert_with_openssl M s)) = server s"
  "listenings (trace (snd (generate_cert_with_openssl M s))) = listenings (trace s)"
  by (simp_all add: generate_cert_with_openssl_def Let_def state_ops openssl_except_def
      split: option.split sum.split)

lemma openssl_runs:
  "runs (trace (snd (generate_cert_with_openssl M s))) =
     runs (trace s) @ openssl_commands M (host s)"
  by (simp add: generate_cert_with_openssl_def Let_def state_ops openssl_except_def
      openssl_commands_def genrsa_argv_def req_argv_def
      split: option.split sum.split)

lemma generate_result:
  "fst (generate_self_signed_cert M s) = Inr True \<longleftrightarrow> native_ok M \<or> openssl_ok M"
  using native_generation_result [of M "log NativeGeneration s"]
    openssl_result [of M "snd (native_generation M (log NativeGeneration s))"]
  by (cases "native_generation M (log NativeGeneration s)")
     (auto simp: generate_self_signed_cert_def split: option.splits)

lemma generate_keeps:
  "host (snd (generate_self_signed_cert M s)) = host s"
  "port (snd (generate_self_signed_cert M s)) = port s"
  "server (snd (generate_self_signed_cert M s)) = server s"
  "listenings (trace (snd (generate_self_signed_cert M s))) = listenings (trace s)"
  using native_generation_keeps [of M "log NativeGeneration s"]
    openssl_keeps [of M "snd (native_generation M (log NativeGeneration s))"]
  by (cases "native_generation M (log NativeGeneration s)";
      simp add: generate_self_signed_cert_def log_def split: option.splits)+

lemma generate_runs:
  "runs (trace (snd (generate_self_signed_cert M s))) =
     runs (trace s) @ (if native_ok M then [] else openssl_commands M (host s))"
  using native_generation_keeps [of M "log NativeGeneration s"]
    native_generation_result [of M "log NativeGeneration s"]
    openssl_runs [of M "snd (native_generation M (log NativeGeneration s))"]
  by (cases "native_generation M (log NativeGeneration s)")
     (auto simp: generate_self_signed_cert_def log_def split: option.splits)

lemma native_generation_trace:
  "\<exists>es. trace (snd (native_generation M s)) = trace s @ es"
  by (simp add: native_generation_def Let_def state_ops split: option.split sum.split)

lemma openssl_trace:
  "\<exists>es. trace (snd (generate_cert_with_openssl M s)) = trace s @ es"
  by (simp add: generate_cert_with_openssl_def Let_def state_ops openssl_except_def
      split: option.split sum.split)

lemma generate_trace:
  "\<exists>es. trace (snd (generate_self_signed_cert M s)) = trace s @ NativeGeneration # es"
proof -
  obtain es where 1: "trace (snd (native_generation M (log NativeGeneration s))) =
      trace s @ NativeGeneration # es"
    using native_generation_trace [of M "log NativeGeneration s"] by (auto simp: log_def)
  obtain es' where 2: "trace (snd (generate_cert_with_openssl M
        (snd (native_generation M (log NativeGeneration s))))) =
      trace (snd (native_generation M (log NativeGeneration s))) @ es'"
    using openssl_trace by blast
  show ?thesis
    using 1 2
    by (cases "native_generation M (log NativeGeneration s)")
       (auto simp: generate_self_signed_cert_def split: option.splits)
qed

lemma native_okD:
  assumes "native_ok M"
  obtains d where "mkdtemp_first M = Inr d" and "import_cryptography M = None"
    and "build_certificate M = None" and "write_cert M = None" and "write_key M = None"
    and "generated_dir M = d"
  using assms by (auto simp: native_ok_def generated_dir_def split: sum.splits)

lemma openssl_okD:
  assumes "openssl_ok M" and "\<not> native_ok M"
  obtains d where "mkdtemp_second M = Inr d" and "openssl_genrsa M = None"
    and "openssl_req M = None" and "generated_dir M = d"
  using assms by (auto simp: openssl_ok_def generated_dir_def split: sum.splits)

lemma native_generation_paths:
  assumes "native_ok M"
  shows "temp_cert_dir (snd (native_generation M s)) = Some (generated_dir M)"
    and "cert_file (snd (native_generation M s)) = Some (os_path_join (generated_dir M) ''cert.pem'')"
    and "key_file (snd (native_generation M s)) = Some (os_path_join (generated_dir M) ''key.pem'')"
    and "Mkdtemp (generated_dir M) \<in> set (trace (snd (native_generation M s)))"
    and "WriteCertificate (os_path_join (generated_dir M) ''cert.pem'')
           (self_signed_certificate M (host s)) \<in> set (trace (snd (native_generation M s)))"
  using assms
  by (rule native_okD; simp add: native_generation_def Let_def state_ops)+

lemma openssl_paths:
  assumes "openssl_ok M" and "\<not> native_ok M"
  shows "temp_cert_dir (snd (generate_cert_with_openssl M s)) = Some (generated_dir M)"
    and "cert_file (snd (generate_cert_with_openssl M s)) =
           Some (os_path_join (generated_dir M) ''cert.pem'')"
    and "key_file (snd (generate_cert_with_openssl M s)) =
           Some (os_path_join (generated_dir M) ''key.pem'')"
    and "Mkdtemp (generated_dir M) \<in> set (trace (snd (generate_cert_with_openssl M s)))"
  using assms
  by (rule openssl_okD; simp add: generate_cert_with_openssl_def Let_def state_ops)+

lemma generate_paths:
  assumes "native_ok M \<or> openssl_ok M"
  shows "temp_cert_dir (snd (generate_self_signed_cert M s)) = Some (generated_dir M)"
    and "cert_file (snd (generate_self_signed_cert M s)) =
           Some (os_path_join (generated_dir M) ''cert.pem'')"
    and "key_file (snd (generate_self_signed_cert M s)) =
           Some (os_path_join (generated_dir M) ''key.pem'')"
    and "Mkdtemp (generated_dir M) \<in> set (trace (snd (generate_self_signed_cert M s)))"
proof -
  let ?n = "native_generation M (log NativeGeneration s)"
  have *: "temp_cert_dir (snd (generate_self_signed_cert M s)) = Some (generated_dir M) \<and>
    cert_file (snd (generate_self_signed_cert M s)) =
           Some (os_path_join (generated_dir M) ''cert.pem'') \<and>
    key_file (snd (generate_self_signed_cert M s)) =
           Some (os_path_join (generated_dir M) ''key.pem'') \<and>
    Mkdtemp (generated_dir M) \<in> set (trace (snd (generate_self_signed_cert M s)))"
  proof (cases "native_ok M")
    case True
    then have "fst ?n = None" by (simp add: native_generation_result)
    then have "generate_self_signed_cert M s = (Inr True, snd ?n)"
      by (cases ?n) (simp add: generate_self_signed_cert_def)
    with True show ?thesis by (simp add: native_generation_paths)
  next
    case False
    then have "fst ?n \<noteq> None" by (simp add: native_generation_result)
    then have "generate_self_signed_cert M s = generate_cert_with_openssl M (snd ?n)"
      by (cases ?n) (auto simp: generate_self_signed_cert_def)
    with False assms show ?thesis by (simp add: openssl_paths)
  qed
  from * show "temp_cert_dir (snd (generate_self_signed_cert M s)) = Some (generated_dir M)"
    and "cert_file (snd (generate_self_signed_cert M s)) =
           Some (os_path_join (generated_dir M) ''cert.pem'')"
    and "key_file (snd (generate_self_signed_cert M s)) =
           Some (os_path_join (generated_dir M) ''key.pem'')"
    and "Mkdtemp (generated_dir M) \<in> set (trace (snd (generate_self_signed_cert M s)))"
    by simp_all
qed



lemma cleanup_temp_keeps:
  "cert_file (cleanup_temp s) = cert_file s"
  "key_file (cleanup_temp s) = key_file s"
  "temp_cert_dir (cleanup_temp s) = temp_cert_dir s"
  "host (cleanup_temp s) = host s"
  "port (cleanup_temp s) = port s"
  "server (cleanup_temp s) = server s"
  "runs (trace (cleanup_temp s)) = runs (trace s)"
  "listenings (trace (cleanup_temp s)) = listenings (trace s)"
  by (simp_all add: cleanup_temp_def Let_def unlink_def log_def rmdir_def)

lemma cleanup_temp_trace:
  "set (trace s) \<subseteq> set (trace (cleanup_temp s))"
  by (auto simp: cleanup_temp_def Let_def unlink_def log_def rmdir_def)

lemma serve_keeps:
  "cert_file (snd (serve M s)) = cert_file s"
  "key_file (snd (serve M s)) = key_file s"
  "temp_cert_dir (snd (serve M s)) = temp_cert_dir s"
  "host (snd (serve M s)) = host s"
  "port (snd (serve M s)) = port s"
  "runs (trace (snd (serve M s))) = runs (trace s)"
  by (simp_all add: serve_def Let_def log_def split: option.split serve_end.split)

lemma serve_trace:
  "set (trace s) \<subseteq> set (trace (snd (serve M s)))"
  by (auto simp: serve_def Let_def log_def split: option.split serve_end.split)

lemma serve_loads:
  "bind M = None \<Longrightarrow>
   LoadCertChain (cert_file s) (key_file s) \<in> set (trace (snd (serve M s)))"
  by (simp add: serve_def Let_def log_def split: option.split serve_end.split)

lemma cleanup_cases:
  obtains (no_server) "server s = None" "cleanup s = Done (cleanup_temp (log Cleanup s))"
  | (blocked) srv where "server s = Some srv" "\<not> is_shut_down srv"
      "cleanup s = Blocked (log Cleanup s)"
  | (closed) srv where "server s = Some srv" "is_shut_down srv"
      "cleanup s = Done (cleanup_temp ((log Cleanup s)\<lparr>server := Some (server_close srv)\<rparr>))"
  by (cases "server s") (auto simp: cleanup_def Let_def log_def shutdown_def)

lemma cleanup_keeps:
  "cert_file (final (cleanup s)) = cert_file s"
  "key_file (final (cleanup s)) = key_file s"
  "temp_cert_dir (final (cleanup s)) = temp_cert_dir s"
  "host (final (cleanup s)) = host s"
  "port (final (cleanup s)) = port s"
  "runs (trace (final (cleanup s))) = runs (trace s)"
  "listenings (trace (final (cleanup s))) = listenings (trace s)"
  by (cases s rule: cleanup_cases; simp add: cleanup_temp_keeps log_def)+

lemma cleanup_trace:
  "set (trace s) \<subseteq> set (trace (final (cleanup s)))"
proof (cases s rule: cleanup_cases)
  case no_server
  then show ?thesis using cleanup_temp_trace [of "log Cleanup s"] by (auto simp: log_def)
next
  case (blocked srv)
  then show ?thesis by (auto simp: log_def)
next
  case (closed srv)
  then show ?thesis
    using cleanup_temp_trace [of "(log Cleanup s)\<lparr>server := Some (server_close srv)\<rparr>"]
    by (auto simp: log_def)
qed

lemma start_try_cases:
  obtains (missing) "filter (\<lambda>f. f \<notin> files s) required_files \<noteq> []"
      "start_try M s = (Returned, s)"
  | (supplied) "filter (\<lambda>f. f \<notin> files s) required_files = []"
      "truthy (cert_file s)" "truthy (key_file s)"
      "start_try M s = serve M s"
  | (raised) e where "filter (\<lambda>f. f \<notin> files s) required_files = []"
      "\<not> truthy (cert_file s) \<or> \<not> truthy (key_file s)"
      "fst (generate_self_signed_cert M s) = Inl e"
      "start_try M s = (Failed e, snd (generate_self_signed_cert M s))"
  | (failed) "filter (\<lambda>f. f \<notin> files s) required_files = []"
      "\<not> truthy (cert_file s) \<or> \<not> truthy (key_file s)"
      "fst (generate_self_signed_cert M s) = Inr False"
      "start_try M s = (Returned, snd (generate_self_signed_cert M s))"
  | (generated) "filter (\<lambda>f. f \<notin> files s) required_files = []"
      "\<not> truthy (cert_file s) \<or> \<not> truthy (key_file s)"
      "fst (generate_self_signed_cert M s) = Inr True"
      "start_try M s = serve M (snd (generate_self_signed_cert M s))"
proof (cases "filter (\<lambda>f. f \<notin> files s) required_files \<noteq> []")
  case True
  then show ?thesis using missing by (simp add: start_try_def)
next
  case nomiss: False
  show ?thesis
  proof (cases "truthy (cert_file s) \<and> truthy (key_file s)")
    case True
    with nomiss show ?thesis using supplied by (simp add: start_try_def)
  next
    case False
    obtain r s' where g: "generate_self_signed_cert M s = (r, s')"
      by (cases "generate_self_signed_cert M s")
    show ?thesis
    proof (cases r)
      case (Inl e)
      with g nomiss False show ?thesis using raised [of e] by (auto simp: start_try_def)
    next
      case (Inr b)
      with g nomiss False show ?thesis
        using failed generated by (cases b) (auto simp: start_try_def)
    qed
  qed
qed

lemma required_present:
  "set required_files \<subseteq> files s \<Longrightarrow> filter (\<lambda>f. f \<notin> files s) required_files = []"
  by (auto simp: filter_empty_conv)

lemma example_paths [simp]:
  "os_path_join ''/tmp/tmpa'' ''cert.pem'' = ''/tmp/tmpa/cert.pem''"
  "os_path_join ''/tmp/tmpa'' ''key.pem'' = ''/tmp/tmpa/key.pem''"
  "os_path_join ''/tmp/tmpb'' ''cert.pem'' = ''/tmp/tmpb/cert.pem''"
  "os_path_join ''/tmp/tmpb'' ''key.pem'' = ''/tmp/tmpb/key.pem''"
  by (simp_all add: os_path_join_def endswith_def suffix_to_prefix)

lemma example_outcomes_ok [simp]:
  "native_ok example_outcomes" "generated_dir example_outcomes = ''/tmp/tmpa''"
  "\<not> native_ok no_generator_outcomes" "\<not> openssl_ok no_generator_outcomes"
  by (simp_all add: native_ok_def openssl_ok_def generated_dir_def example_outcomes_def
      no_generator_outcomes_def)

lemma example_server_fields [simp]:
  "cert_file (example_server c k) = c" "key_file (example_server c k) = k"
  "files (example_server c k) = example_files" "trace (example_server c k) = []"
  "host (example_server c k) = ''localhost''" "port (example_server c k) = 8443"
  "server (example_server c k) = None" "temp_cert_dir (example_server c k) = None"
  by (simp_all add: example_server_def SecureWebRTCServer_def)

lemma example_required [simp]: "set required_files \<subseteq> example_files"
  by (simp add: required_files_def example_files_def)

lemma os_path_join_prefix:
  "prefix d (os_path_join d ''cert.pem'')" "prefix d (os_path_join d ''key.pem'')"
  "os_path_join d ''cert.pem'' \<noteq> d" "os_path_join d ''key.pem'' \<noteq> d"
  "os_path_join d ''cert.pem'' \<noteq> []" "os_path_join d ''key.pem'' \<noteq> []"
  by (simp_all add: os_path_join_def)

lemma native_generation_files:
  assumes "native_ok M"
  shows "files (snd (native_generation M s)) =
           insert (os_path_join (generated_dir M) ''key.pem'')
             (insert (os_path_join (generated_dir M) ''cert.pem'')
               (insert (generated_dir M) (files s)))"
  using assms
  by (rule native_okD) (simp add: native_generation_def Let_def state_ops)

lemma generate_files:
  assumes "native_ok M"
  shows "files (snd (generate_self_signed_cert M s)) =
           insert (os_path_join (generated_dir M) ''key.pem'')
             (insert (os_path_join (generated_dir M) ''cert.pem'')
               (insert (generated_dir M) (files s)))"
proof -
  let ?n = "native_generation M (log NativeGeneration s)"
  from assms have "fst ?n = None" by (simp add: native_generation_result)
  then have "generate_self_signed_cert M s = (Inr True, snd ?n)"
    by (cases ?n) (simp add: generate_self_signed_cert_def)
  with assms show ?thesis by (simp add: native_generation_files log_def)
qed

lemma serve_files: "files (snd (serve M s)) = files s"
  by (simp add: serve_def Let_def log_def split: option.split serve_end.split)

lemma serve_server:
  "server (snd (serve M s)) =
     (case bind M of
        Some e \<Rightarrow> server s
      | None \<Rightarrow> Some \<lparr>is_shut_down = (tls_setup M = None), socket_open = True,
                       server_is_https = Some True\<rparr>)"
  by (simp add: serve_def Let_def log_def split: option.split serve_end.split)

lemma generate_server: "server (snd (generate_self_signed_cert M s)) = server s"
  by (rule generate_keeps)

lemma unlink_fields [simp]:
  "temp_cert_dir (unlink p s) = temp_cert_dir s"
  "cert_file (unlink p s) = cert_file s"
  "key_file (unlink p s) = key_file s"
  "files (unlink p s) = files s - {p}"
  by (simp_all add: unlink_def log_def)

lemma cleanup_temp_removes:
  assumes d: "temp_cert_dir s = Some d"
    and c: "cert_file s = Some (os_path_join d ''cert.pem'')"
    and k: "key_file s = Some (os_path_join d ''key.pem'')"
    and f: "files s = insert (os_path_join d ''key.pem'')
              (insert (os_path_join d ''cert.pem'') (insert d fs))"
    and fresh: "fresh_dir d fs"
  shows "files (cleanup_temp s) = fs"
proof -
  let ?c = "os_path_join d ''cert.pem''" and ?k = "os_path_join d ''key.pem''"
  have nin: "d \<notin> fs" "?c \<notin> fs" "?k \<notin> fs"
    using fresh os_path_join_prefix(1,2) [of d] by (auto simp: fresh_dir_def)
  have ne: "?c \<noteq> d" "?k \<noteq> d" "d \<noteq> []" "?c \<noteq> []" "?k \<noteq> []" "?c \<noteq> ?k"
    using fresh by (simp_all add: os_path_join_prefix fresh_dir_def) (simp add: os_path_join_def)
  define s2 where "s2 = unlink ?k (unlink ?c s)"
  have f2: "files s2 = insert d fs"
    using nin ne by (auto simp: s2_def f)
  have empty: "\<not> (\<exists>p \<in> files s2. in_dir d p)"
    using fresh by (auto simp: f2 in_dir_def fresh_dir_def dest: append_prefixD)
  have "cleanup_temp s = (case rmdir d s2 of None \<Rightarrow> s2 | Some s' \<Rightarrow> s')"
    using ne
    by (simp add: cleanup_temp_def truthy_def d c k f Let_def s2_def cong: option.case_cong)
  also have "files \<dots> = fs"
    using empty nin by (simp add: rmdir_def log_def f2)
  finally show ?thesis .
qed

lemma log_fields [simp]:
  "temp_cert_dir (log e s) = temp_cert_dir s"
  "cert_file (log e s) = cert_file s"
  "key_file (log e s) = key_file s"
  "files (log e s) = files s"
  "server (log e s) = server s"
  by (simp_all add: log_def)

lemma cleanup_temp_no_temp:
  "temp_cert_dir s = None \<Longrightarrow> cleanup_temp s = s"
  by (simp add: cleanup_temp_def truthy_def)

lemma cleanup_no_temp:
  "temp_cert_dir s = None \<Longrightarrow> files (final (cleanup s)) = files s"
  by (cases s rule: cleanup_cases) (simp_all add: cleanup_temp_no_temp)

lemma caller_supplied_files_kept:
  assumes "truthy (cert_file s)" and "truthy (key_file s)" and "temp_cert_dir s = None"
  shows "files (final (start M s)) = files s"
proof (cases M s rule: start_try_cases)
  case missing
  with assms show ?thesis by (simp add: start_def cleanup_no_temp)
next
  case supplied
  with assms show ?thesis by (simp add: start_def cleanup_no_temp serve_keeps serve_files)
qed (use assms in simp_all)

lemma start_after_generation:
  assumes "native_ok M" and "set required_files \<subseteq> files s"
    and "\<not> truthy (cert_file s) \<or> \<not> truthy (key_file s)"
  shows "start_try M s = serve M (snd (generate_self_signed_cert M s))"
proof -
  from assms(1) have "fst (generate_self_signed_cert M s) = Inr True"
    by (simp add: generate_result)
  then show ?thesis
    using assms(2,3) required_present [of s]
    by (cases M s rule: start_try_cases) simp_all
qed

lemma generated_material_removed:
  assumes ok: "native_ok M" and req: "set required_files \<subseteq> files s"
    and nt: "\<not> truthy (cert_file s) \<or> \<not> truthy (key_file s)"
    and fresh: "fresh_dir (generated_dir M) (files s)"
    and srv: "server s = None"
    and loop: "bind M \<noteq> None \<or> tls_setup M = None"
  shows "\<exists>s'. start M s = Done s' \<and> files s' = files s"
proof -
  let ?t = "snd (serve M (snd (generate_self_signed_cert M s)))"
  have st: "start M s = cleanup ?t"
    by (simp add: start_def start_after_generation [OF ok req nt])
  have fld: "temp_cert_dir ?t = Some (generated_dir M)"
    "cert_file ?t = Some (os_path_join (generated_dir M) ''cert.pem'')"
    "key_file ?t = Some (os_path_join (generated_dir M) ''key.pem'')"
    "files ?t = insert (os_path_join (generated_dir M) ''key.pem'')
       (insert (os_path_join (generated_dir M) ''cert.pem'') (insert (generated_dir M) (files s)))"
    using ok by (simp_all add: serve_keeps serve_files generate_paths generate_files)
  show ?thesis
  proof (cases ?t rule: cleanup_cases)
    case no_server
    then show ?thesis
      using cleanup_temp_removes [of "log Cleanup ?t" "generated_dir M" "files s"] fld fresh
      by (simp add: st)
  next
    case (blocked srv')
    with loop srv show ?thesis
      by (auto simp: serve_server generate_server split: option.splits)
  next
    case (closed srv')
    then show ?thesis
      using cleanup_temp_removes
        [of "(log Cleanup ?t)\<lparr>server := Some (server_close srv')\<rparr>" "generated_dir M" "files s"]
        fld fresh
      by (simp add: st)
  qed
qed

lemma cleanup_blocks_before_loop:
  assumes ok: "native_ok M" and req: "set required_files \<subseteq> files s"
    and nt: "\<not> truthy (cert_file s) \<or> \<not> truthy (key_file s)"
    and "bind M = None" and "tls_setup M \<noteq> None"
  shows "\<exists>s'. start M s = Blocked s' \<and>
           temp_cert_dir s' = Some (generated_dir M) \<and>
           {generated_dir M, os_path_join (generated_dir M) ''cert.pem'',
            os_path_join (generated_dir M) ''key.pem''} \<subseteq> files s'"
proof -
  let ?t = "snd (serve M (snd (generate_self_signed_cert M s)))"
  have st: "start M s = cleanup ?t"
    by (simp add: start_def start_after_generation [OF ok req nt])
  have fld: "temp_cert_dir ?t = Some (generated_dir M)"
    "files ?t = insert (os_path_join (generated_dir M) ''key.pem'')
       (insert (os_path_join (generated_dir M) ''cert.pem'') (insert (generated_dir M) (files s)))"
    using ok by (simp_all add: serve_keeps serve_files generate_paths generate_files)
  show ?thesis
  proof (cases ?t rule: cleanup_cases)
    case (blocked srv')
    then show ?thesis by (simp add: st fld)
  qed (use assms(4,5) in \<open>auto simp: serve_server\<close>)
qed

lemma cleanup_temp_removes_only:
  "files s - {the (temp_cert_dir s), the (cert_file s), the (key_file s)}
     \<subseteq> files (cleanup_temp s)"
  by (auto simp: cleanup_temp_def Let_def rmdir_def log_def)

lemma cleanup_removes_only:
  "files s - {the (temp_cert_dir s), the (cert_file s), the (key_file s)}
     \<subseteq> files (final (cleanup s))"
  using cleanup_temp_removes_only [of "log Cleanup s"]
    cleanup_temp_removes_only [of "(log Cleanup s)\<lparr>server := Some (server_close (the (server s)))\<rparr>"]
  by (cases s rule: cleanup_cases) auto

lemma openssl_files_mono: "files s \<subseteq> files (snd (generate_cert_with_openssl M s))"
  by (auto simp: generate_cert_with_openssl_def Let_def state_ops openssl_except_def
      split: option.split sum.split)

lemma first_directory_left_behind:
  assumes "import_cryptography M = None" and "build_certificate M = None"
    and "mkdtemp_first M = Inr d1" and "write_cert M \<noteq> None"
    and "openssl_ok M" and "mkdtemp_second M = Inr d2"
    and "set required_files \<subseteq> files s"
    and "\<not> truthy (cert_file s) \<or> \<not> truthy (key_file s)"
    and "d1 \<notin> {d2, os_path_join d2 ''cert.pem'', os_path_join d2 ''key.pem''}"
  shows "d1 \<in> files (final (start M s)) \<and> temp_cert_dir (final (start M s)) = Some d2"
proof -
  let ?n = "native_generation M (log NativeGeneration s)"
  let ?g = "snd (generate_self_signed_cert M s)"
  have nok: "\<not> native_ok M" using assms(4) by (simp add: native_ok_def)
  have gd: "generated_dir M = d2" using nok assms(6) by (simp add: generated_dir_def)
  have "d1 \<in> files (snd ?n)"
    using assms(1-4) by (auto simp: native_generation_def Let_def state_ops)
  moreover have "fst ?n \<noteq> None" using nok by (simp add: native_generation_result)
  then have "generate_self_signed_cert M s = generate_cert_with_openssl M (snd ?n)"
    by (cases ?n) (auto simp: generate_self_signed_cert_def)
  ultimately have 1: "d1 \<in> files ?g"
    using openssl_files_mono [of "snd ?n" M] by auto
  have t: "fst (generate_self_signed_cert M s) = Inr True"
    using assms(5) by (simp add: generate_result)
  have st: "start_try M s = serve M ?g"
    using t assms(7,8) required_present [of s]
    by (cases M s rule: start_try_cases) simp_all
  let ?t = "snd (serve M ?g)"
  have fld: "temp_cert_dir ?t = Some d2" "cert_file ?t = Some (os_path_join d2 ''cert.pem'')"
    "key_file ?t = Some (os_path_join d2 ''key.pem'')" "d1 \<in> files ?t"
    using assms(5) 1 gd generate_paths [of M s] by (simp_all add: serve_keeps serve_files)
  then have "d1 \<in> files (final (cleanup ?t))"
    using cleanup_removes_only [of ?t] assms(9) by auto
  then show ?thesis
    by (simp add: start_def st cleanup_keeps fld)
qed

lemma cleanup_called_once:
  "count_list (trace (final (start M s))) Cleanup = Suc (count_list (trace s) Cleanup)"
proof -
  have n: "count_list (trace (snd (native_generation M s))) Cleanup = count_list (trace s) Cleanup"
    for s
    by (simp add: native_generation_def Let_def state_ops split: option.split sum.split)
  have o: "count_list (trace (snd (generate_cert_with_openssl M s))) Cleanup =
      count_list (trace s) Cleanup" for s
    by (simp add: generate_cert_with_openssl_def Let_def state_ops openssl_except_def
        split: option.split sum.split)
  have g: "count_list (trace (snd (generate_self_signed_cert M s))) Cleanup =
      count_list (trace s) Cleanup"
    using n [of "log NativeGeneration s"] o [of "snd (native_generation M (log NativeGeneration s))"]
    by (cases "native_generation M (log NativeGeneration s)")
       (auto simp: generate_self_signed_cert_def log_def split: option.splits)
  have v: "count_list (trace (snd (serve M s))) Cleanup = count_list (trace s) Cleanup" for s
    by (simp add: serve_def Let_def log_def split: option.split serve_end.split)
  have t: "count_list (trace (cleanup_temp s)) Cleanup = count_list (trace s) Cleanup" for s
    by (simp add: cleanup_temp_def Let_def unlink_def log_def rmdir_def)
  have c: "count_list (trace (final (cleanup s))) Cleanup = Suc (count_list (trace s) Cleanup)"
    for s
    by (cases s rule: cleanup_cases) (simp_all add: t log_def)
  have "count_list (trace (snd (start_try M s))) Cleanup = count_list (trace s) Cleanup"
    by (cases M s rule: start_try_cases) (simp_all add: g v)
  then show ?thesis by (simp add: start_def c)
qed

lemma main_unfold:
  "main M fs a =
     (if install_deps a then DependenciesInstalled
      else if truthy (cert a) \<and> truthy (key a)
      then (if the (cert a) \<notin> fs then Aborted CertificateNotFound
            else if the (key a) \<notin> fs then Aborted PrivateKeyNotFound
            else Started (start M (SecureWebRTCServer (args_port a)
                   (if network a then ''0.0.0.0'' else args_host a) (cert a) (key a) fs)))
      else if truthy (cert a) \<or> truthy (key a) then Aborted BothRequired
      else Started (start M (SecureWebRTCServer (args_port a)
                   (if network a then ''0.0.0.0'' else args_host a) (cert a) (key a) fs)))"
  by (cases "network a") (simp_all add: main_def Let_def)
section \<open>Claims about the handler\<close>

text \<open>
  C1, as the code has it. Every response that has a status line and headers carries the
  fixed security-header set before any body bytes, and the Strict-Transport-Security header
  exactly when the server session is HTTPS: that is every reply to a request line the
  library accepts with a version other than \<open>HTTP/0.9\<close> (GET and HEAD with their 200, 404
  and 403 replies, OPTIONS, the 501 of any other method, the 431 for bad header lines, the
  400 for a line of more than three words) and the 414 for a line that is too long. Every
  other reply is written while the request version is \<open>HTTP/0.9\<close> and is body bytes only:
  the reply to a request line of two words or to one that names \<open>HTTP/0.9\<close>, and the 400
  and 505 sent for a request line whose version the library rejects. The handler starts a
  request with an empty header buffer and nothing written.
\<close>

theorem security_headers_on_every_response:
  assumes "headers_buffer h = []" and "wfile h = []"
  shows "if reply_version (raw_requestline rq) = ''HTTP/0.9''
         then list_all is_body (wfile (handle_one_request E rq h))
         else carries_security_headers (is_https h) (wfile (handle_one_request E rq h))"
  using assms by (rule handle_one_request_reply)

theorem security_headers_on_every_response_witness:
  "headers_buffer example_connection = [] \<and>
   wfile example_connection = [] \<and>
   reply_version (raw_requestline (request_line ''GET / HTTP/1.1'')) = ''HTTP/1.1'' \<and>
   carries_security_headers (Some True)
     (wfile (handle_one_request example_httpd (request_line ''GET / HTTP/1.1'')
        example_connection))"
  using security_headers_on_every_response
    [of example_connection "request_line ''GET / HTTP/1.1''" example_httpd]
    example_reply_version(2)
  by (simp add: example_connection_def request_line_def)

text \<open>
  C1 as stated fails: not every response carries the security headers. The request line
  \<open>GET /app.js\<close>, without a version, is answered over TLS with the bytes of the file and
  nothing else.
\<close>

theorem http09_reply_without_security_headers:
  "wfile (handle_one_request example_httpd (request_line ''GET /app.js'') example_connection) =
     [BodyBytes ''console.log(1)''] \<and>
   \<not> carries_security_headers (Some True)
     (wfile (handle_one_request example_httpd (request_line ''GET /app.js'') example_connection))"
  by (simp add: example_http09_reply carries_security_headers_def security_header_set_def)



text \<open>
  For a request of version \<open>HTTP/0.9\<close> the resolution is the same and the reply is the
  body alone: the error page, or for a GET the content of the file.
\<close>

lemma static_content_resolution_http09:
  assumes "wfile h = []" and "request_version h = ''HTTP/0.9''"
  shows "snd (send_head E h) =
           (case resolve_spec E (path h) of
              NotFound \<Rightarrow> None | Forbidden \<Rightarrow> None | Resolved p f \<Rightarrow> Some (p, f)) \<and>
         wfile (do_GET E h) =
           (case resolve_spec E (path h) of
              NotFound \<Rightarrow> error_payload E (command h) 404 ''File not found''
            | Forbidden \<Rightarrow> error_payload E (command h) 403 ''Directory listing not allowed''
            | Resolved p f \<Rightarrow> [BodyBytes (content f)])"
  by (simp add: send_head_snd do_GET_09 [OF assms])

text \<open>
  C5, as the code has it. The content type is decided by the suffix of the path, compared
  character by character: a path that ends in one of the suffixes of the override table, as
  the table spells it (lower case), gets the table's content type, whatever the rest of the
  path, the content of the file and the guess of the base class; a path that ends in none
  of them gets the guess of the base class.
\<close>

theorem content_type_overrides_by_suffix:
  "(\<forall>(ext, ctype) \<in> set override_table. fst (guess_type E (stem @ ext)) = ctype) \<and>
   (\<not> list_ex (endswith p) (map fst override_table) \<longrightarrow>
      fst (guess_type E p) =
        (case super_guess_type E p of GuessStr m \<Rightarrow> m | GuessTuple m e \<Rightarrow> m))"
  by (simp add: override_table_def guess_type_overrides guess_type_fallback [unfolded override_table_def])

theorem content_type_overrides_by_suffix_witness:
  "(''.js'', ''application/javascript; charset=utf-8'') \<in> set override_table \<and>
   fst (guess_type example_httpd (''/srv/app'' @ ''.js'')) = ''application/javascript; charset=utf-8'' \<and>
   \<not> list_ex (endswith ''README'') (map fst override_table) \<and>
   fst (guess_type example_httpd ''README'') = ''application/octet-stream''"
  using content_type_overrides_by_suffix [of example_httpd "''/srv/app''" "''README''"]
  by (simp add: override_table_def endswith_def suffix_to_prefix example_httpd_def
      mimetypes_guess_def ascii_lower_def)

text \<open>
  C5 as stated fails: the comparison is case-sensitive. With the base class guessing from
  the lower-cased extension as the library does (\<open>text/html\<close> for both names),
  \<open>index.HTML\<close> is served as \<open>text/html\<close> and \<open>index.html\<close> as
  \<open>text/html; charset=utf-8\<close>.
\<close>

theorem content_type_not_case_insensitive:
  "fst (guess_type example_httpd ''index.HTML'') \<noteq> fst (guess_type example_httpd ''index.html'')"
  by (simp add: guess_type_def example_httpd_def mimetypes_guess_def endswith_def
      suffix_to_prefix ascii_lower_def)



text \<open>
  C7. The empty path and \<open>/\<close> are normalised to \<open>/index.html\<close> before the path is
  translated: \<open>send_head\<close> leaves \<open>/index.html\<close> as the path of the request; the handler
  state, the returned file and the bytes on the wire are those of a request for
  \<open>/index.html\<close>, for GET and for HEAD; the outcome is the resolution of \<open>/index.html\<close>,
  whatever the translation of \<open>/\<close> itself names; and when the translation of
  \<open>/index.html\<close> opens as a file, that file is returned and a GET is answered with its
  headers and its content.
\<close>

theorem root_path_same_as_index_html:
  assumes "p = ''/'' \<or> p = []"
  shows "path (fst (send_head E (h\<lparr>path := p\<rparr>))) = ''/index.html'' \<and>
         send_head E (h\<lparr>path := p\<rparr>) = send_head E (h\<lparr>path := ''/index.html''\<rparr>) \<and>
         do_GET E (h\<lparr>path := p\<rparr>) = do_GET E (h\<lparr>path := ''/index.html''\<rparr>) \<and>
         do_HEAD E (h\<lparr>path := p\<rparr>) = do_HEAD E (h\<lparr>path := ''/index.html''\<rparr>) \<and>
         snd (send_head E (h\<lparr>path := p\<rparr>)) =
           (case resolve_spec E ''/index.html'' of
              NotFound \<Rightarrow> None | Forbidden \<Rightarrow> None | Resolved q g \<Rightarrow> Some (q, g)) \<and>
         (open_rb E (translate_path E ''/index.html'') = Some f \<longrightarrow>
            snd (send_head E (h\<lparr>path := p\<rparr>)) = Some (translate_path E ''/index.html'', f) \<and>
            (headers_buffer h = [] \<and> wfile h = [] \<and> request_version h \<noteq> ''HTTP/0.9'' \<longrightarrow>
               wfile (do_GET E (h\<lparr>path := p\<rparr>)) =
                 file_headers E (translate_path E ''/index.html'') f @
                 header_block (is_https h) @ [BlankLine, BodyBytes (content f)]))"
proof -
  let ?i = "h\<lparr>path := ''/index.html''\<rparr>"
  have 1: "send_head E (h\<lparr>path := p\<rparr>) = send_head E ?i"
    using assms by (auto simp: send_head_def)
  have 2: "path (fst (send_head E ?i)) = ''/index.html''"
    by simp
  have 3: "snd (send_head E ?i) =
      (case resolve_spec E ''/index.html'' of
         NotFound \<Rightarrow> None | Forbidden \<Rightarrow> None | Resolved q g \<Rightarrow> Some (q, g))"
    using send_head_snd [of E ?i] by simp
  have 4: "resolve_spec E ''/index.html'' = Resolved (translate_path E ''/index.html'') f"
    if "open_rb E (translate_path E ''/index.html'') = Some f"
    using that
    by (auto simp: resolve_spec_def opened_def os_path_exists_def os_path_isdir_def open_rb_def
        split: option.splits node.splits)
  have 5: "wfile (do_GET E ?i) =
      file_headers E (translate_path E ''/index.html'') f @
      header_block (is_https h) @ [BlankLine, BodyBytes (content f)]"
    if "open_rb E (translate_path E ''/index.html'') = Some f"
      and "headers_buffer h = []" "wfile h = []" "request_version h \<noteq> ''HTTP/0.9''"
    using do_GET_wfile [of ?i E] that by (simp add: 4)
  show ?thesis
    using 2 3 4 5 by (simp add: 1 do_GET_def do_HEAD_def)
qed

theorem root_path_same_as_index_html_witness:
  "open_rb example_httpd (translate_path example_httpd ''/index.html'') =
     Some (File True 13 1700000000 ''<html></html>'') \<and>
   headers_buffer (example_request ''GET'' ''/'') = [] \<and>
   wfile (example_request ''GET'' ''/'') = [] \<and>
   request_version (example_request ''GET'' ''/'') \<noteq> ''HTTP/0.9'' \<and>
   path (fst (send_head example_httpd (example_request ''GET'' ''/''))) = ''/index.html'' \<and>
   snd (send_head example_httpd (example_request ''GET'' ''/'')) =
     Some (''/srv/index.html'', File True 13 1700000000 ''<html></html>'') \<and>
   wfile (do_GET example_httpd (example_request ''GET'' ''/'')) =
     file_headers example_httpd ''/srv/index.html'' (File True 13 1700000000 ''<html></html>'') @
     header_block (Some True) @ [BlankLine, BodyBytes ''<html></html>'']"
proof -
  have t: "translate_path example_httpd ''/index.html'' = ''/srv/index.html''"
    by (simp add: example_httpd_def)
  have e: "(example_request ''GET'' ''/'')\<lparr>path := ''/''\<rparr> = example_request ''GET'' ''/''"
    by (simp add: example_request_def)
  note r = root_path_same_as_index_html
    [of "''/''" example_httpd "example_request ''GET'' ''/''"
      "File True 13 1700000000 ''<html></html>''", unfolded e t, OF disjI1 [OF refl]]
  note o = example_open_index [unfolded t]
  from r have "path (fst (send_head example_httpd (example_request ''GET'' ''/''))) = ''/index.html''"
    by (rule conjunct1)
  moreover from o r [THEN conjunct2, THEN conjunct2, THEN conjunct2, THEN conjunct2, THEN conjunct2]
  have "snd (send_head example_httpd (example_request ''GET'' ''/'')) =
      Some (''/srv/index.html'', File True 13 1700000000 ''<html></html>'') \<and>
    wfile (do_GET example_httpd (example_request ''GET'' ''/'')) =
      file_headers example_httpd ''/srv/index.html'' (File True 13 1700000000 ''<html></html>'') @
      header_block (Some True) @ [BlankLine, BodyBytes ''<html></html>'']"
    by (simp add: example_request_def)
  ultimately show ?thesis
    using o by (simp add: t) (simp add: example_request_def)
qed

section \<open>Claims about the server\<close>

text \<open>
  C2. The claim is that on every way out of \<open>start\<close> the clean-up removes the generated
  certificate, key and directory. The code calls \<open>cleanup\<close> in a \<open>finally\<close>, once on every
  way out (\<open>cleanup_called_once\<close>); it never removes a file when the caller supplied both
  paths (\<open>caller_supplied_files_kept\<close>); and it removes the generated material when no
  listener was created or the serving loop has run (\<open>generated_material_removed\<close>). It misses
  the way out between the two: the port is bound and an exception is raised before
  \<open>serve_forever\<close> is entered. Then \<open>cleanup\<close> calls \<open>shutdown()\<close> on a server whose loop
  never ran, the call does not return, and the generated files stay. The theorem runs the
  code there: no certificate supplied, the native generator writes into \<open>/tmp/tmpa\<close>, the
  port is bound, the TLS set-up raises \<open>ssl.SSLError\<close>.
\<close>

theorem cleanup_blocks_when_tls_setup_fails:
  "(case start tls_failure_outcomes (example_server None None) of
      Blocked s \<Rightarrow>
        temp_cert_dir s = Some ''/tmp/tmpa'' \<and>
        ''/tmp/tmpa'' \<in> files s \<and> ''/tmp/tmpa/cert.pem'' \<in> files s \<and>
        ''/tmp/tmpa/key.pem'' \<in> files s
    | Done s \<Rightarrow> False)"
proof -
  have "native_ok tls_failure_outcomes" "generated_dir tls_failure_outcomes = ''/tmp/tmpa''"
    "bind tls_failure_outcomes = None" "tls_setup tls_failure_outcomes \<noteq> None"
    by (simp_all add: tls_failure_outcomes_def native_ok_def generated_dir_def
        example_outcomes_def)
  then show ?thesis
    using cleanup_blocks_before_loop [of tls_failure_outcomes "example_server None None"]
    by (auto simp: truthy_def)
qed

text \<open>
  The same defect has a second form, in the generator: when the native generator raises
  after its \<open>mkdtemp\<close> (here the disk is full when the certificate is written) and OpenSSL
  succeeds, \<open>temp_cert_dir\<close> is overwritten and the first directory is never removed. On the
  ordinary way out, Ctrl-C in the serving loop, nothing generated is left.
\<close>

lemma disk_full_leaves_first_directory:
  "''/tmp/tmpa'' \<in> files (final (start disk_full_outcomes (example_server None None))) \<and>
   temp_cert_dir (final (start disk_full_outcomes (example_server None None))) = Some ''/tmp/tmpb''"
proof -
  have "import_cryptography disk_full_outcomes = None" "build_certificate disk_full_outcomes = None"
    "mkdtemp_first disk_full_outcomes = Inr ''/tmp/tmpa''" "write_cert disk_full_outcomes \<noteq> None"
    "openssl_ok disk_full_outcomes" "mkdtemp_second disk_full_outcomes = Inr ''/tmp/tmpb''"
    by (simp_all add: disk_full_outcomes_def openssl_ok_def example_outcomes_def)
  then show ?thesis
    using first_directory_left_behind
      [of disk_full_outcomes "''/tmp/tmpa''" "''/tmp/tmpb''" "example_server None None"]
    by (simp add: truthy_def)
qed

lemma ctrl_c_removes_generated_material:
  "\<exists>s. start example_outcomes (example_server None None) = Done s \<and> files s = example_files"
proof -
  have "fresh_dir ''/tmp/tmpa'' example_files"
    by (simp add: fresh_dir_def example_files_def)
  moreover have "tls_setup example_outcomes = None"
    by (simp add: example_outcomes_def)
  ultimately show ?thesis
    using generated_material_removed [of example_outcomes "example_server None None"]
    by (simp add: truthy_def)
qed




text \<open>
  C8. Certificate provisioning tries the native generator first and the OpenSSL program
  only when the native generator raises (the missing package included): generation returns
  \<open>True\<close> exactly when one of the two tiers succeeds, so it fails exactly when both fail; the
  native attempt is the first thing it does; the commands run are none when the native tier
  succeeds, and otherwise \<open>openssl genrsa\<close> with 2048 bits followed, when that succeeds, by
  \<open>openssl req -new -x509\<close> with 365 days and the subject ending in \<open>CN=\<close> host. When both
  tiers fail and a certificate is needed, \<open>start\<close> opens no listener.
\<close>

theorem two_tier_certificate_provisioning:
  "(fst (generate_self_signed_cert M s) = Inr True \<longleftrightarrow> native_ok M \<or> openssl_ok M) \<and>
   (\<exists>es. trace (snd (generate_self_signed_cert M s)) = trace s @ NativeGeneration # es) \<and>
   runs (trace (snd (generate_self_signed_cert M s))) =
     runs (trace s) @ (if native_ok M then [] else openssl_commands M (host s)) \<and>
   (\<not> native_ok M \<and> \<not> openssl_ok M \<and> (\<not> truthy (cert_file s) \<or> \<not> truthy (key_file s)) \<longrightarrow>
      listenings (trace (final (start M s))) = listenings (trace s))"
proof (intro conjI impI)
  show "fst (generate_self_signed_cert M s) = Inr True \<longleftrightarrow> native_ok M \<or> openssl_ok M"
    by (rule generate_result)
  show "\<exists>es. trace (snd (generate_self_signed_cert M s)) = trace s @ NativeGeneration # es"
    by (rule generate_trace)
  show "runs (trace (snd (generate_self_signed_cert M s))) =
     runs (trace s) @ (if native_ok M then [] else openssl_commands M (host s))"
    by (rule generate_runs)
  assume a: "\<not> native_ok M \<and> \<not> openssl_ok M \<and> (\<not> truthy (cert_file s) \<or> \<not> truthy (key_file s))"
  then have no: "fst (generate_self_signed_cert M s) \<noteq> Inr True"
    by (simp add: generate_result)
  show "listenings (trace (final (start M s))) = listenings (trace s)"
  proof (cases M s rule: start_try_cases)
    case missing
    then show ?thesis by (simp add: start_def cleanup_keeps)
  next
    case supplied
    with a show ?thesis by simp
  next
    case (raised e)
    then show ?thesis by (simp add: start_def cleanup_keeps generate_keeps)
  next
    case failed
    then show ?thesis by (simp add: start_def cleanup_keeps generate_keeps)
  next
    case generated
    with no show ?thesis by simp
  qed
qed

theorem two_tier_certificate_provisioning_witness:
  "\<not> native_ok no_generator_outcomes \<and> \<not> openssl_ok no_generator_outcomes \<and>
   \<not> truthy (cert_file (example_server None None)) \<and>
   fst (generate_self_signed_cert no_generator_outcomes (example_server None None)) \<noteq> Inr True \<and>
   listenings (trace (final (start no_generator_outcomes (example_server None None)))) = []"
  using two_tier_certificate_provisioning [of no_generator_outcomes "example_server None None"]
  by (simp add: truthy_def)

text \<open>
  C9, as the code has it. \<open>main\<close> tests the two arguments for their truth value, so an
  empty string counts as not given. When exactly one of the certificate and key arguments is
  a non-empty path, or both are and one of them does not exist, \<open>main\<close> creates no server
  object and starts nothing; unless it was only asked to install the dependencies, it
  aborts with the matching message.
\<close>

theorem incomplete_certificate_arguments_abort:
  assumes "truthy (cert a) \<noteq> truthy (key a) \<or>
           truthy (cert a) \<and> truthy (key a) \<and> (the (cert a) \<notin> fs \<or> the (key a) \<notin> fs)"
  shows "(case main M fs a of Started r \<Rightarrow> False | _ \<Rightarrow> True) \<and>
         (\<not> install_deps a \<longrightarrow>
            main M fs a =
              Aborted (if truthy (cert a) \<and> truthy (key a)
                       then (if the (cert a) \<notin> fs then CertificateNotFound
                             else PrivateKeyNotFound)
                       else BothRequired))"
  using assms by (auto simp: main_unfold)

theorem incomplete_certificate_arguments_abort_witness:
  "truthy (cert (example_args\<lparr>cert := Some ''my.crt''\<rparr>)) \<noteq>
     truthy (key (example_args\<lparr>cert := Some ''my.crt''\<rparr>)) \<and>
   main example_outcomes example_files (example_args\<lparr>cert := Some ''my.crt''\<rparr>) =
     Aborted BothRequired"
  using incomplete_certificate_arguments_abort [of "example_args\<lparr>cert := Some ''my.crt''\<rparr>" example_files example_outcomes]
  by (simp add: example_args_def truthy_def)

text \<open>
  C9 as stated fails for an empty argument: with \<open>--cert ""\<close> and no key, one of the two is
  supplied, yet the server object is created and started (and generates a certificate).
\<close>

theorem empty_certificate_argument_not_rejected:
  "main example_outcomes example_files (example_args\<lparr>cert := Some []\<rparr>) =
     Started (start example_outcomes (SecureWebRTCServer 8443 ''localhost'' (Some []) None example_files))"
  by (simp add: main_unfold example_args_def truthy_def)

text \<open>
  C10. A server object holding exactly one of \<open>cert_file\<close> and \<open>key_file\<close>, started in a
  directory that has the required files: \<open>start\<close> calls the generator, and when generation
  succeeds both attributes are paths inside the directory that \<open>mkdtemp\<close> made, that
  directory is recorded in \<open>temp_cert_dir\<close> (the material counts as temporary), and these
  paths, not the caller's, are what the TLS set-up loads once the port is bound.
\<close>

theorem one_sided_certificate_paths_overwritten:
  assumes "cert_file s = None \<and> key_file s \<noteq> None \<or> cert_file s \<noteq> None \<and> key_file s = None"
    and "set required_files \<subseteq> files s"
  shows "NativeGeneration \<in> set (trace (final (start M s))) \<and>
         (native_ok M \<or> openssl_ok M \<longrightarrow>
            Mkdtemp (generated_dir M) \<in> set (trace (final (start M s))) \<and>
            temp_cert_dir (final (start M s)) = Some (generated_dir M) \<and>
            cert_file (final (start M s)) = Some (os_path_join (generated_dir M) ''cert.pem'') \<and>
            key_file (final (start M s)) = Some (os_path_join (generated_dir M) ''key.pem'') \<and>
            (bind M = None \<longrightarrow>
               LoadCertChain (Some (os_path_join (generated_dir M) ''cert.pem''))
                 (Some (os_path_join (generated_dir M) ''key.pem''))
               \<in> set (trace (final (start M s)))))"
proof -
  let ?g = "snd (generate_self_signed_cert M s)"
  from assms(1) have nt: "\<not> truthy (cert_file s) \<or> \<not> truthy (key_file s)"
    by (auto simp: truthy_def)
  have req: "filter (\<lambda>f. f \<notin> files s) required_files = []"
    using assms(2) by (rule required_present)
  have ng: "NativeGeneration \<in> set (trace ?g)"
    using generate_trace [of M s] by auto
  have sub: "set (trace (snd (start_try M s))) \<subseteq> set (trace (final (start M s)))"
    by (simp add: start_def cleanup_trace)
  have 1: "NativeGeneration \<in> set (trace (snd (start_try M s)))"
  proof (cases M s rule: start_try_cases)
    case generated
    then show ?thesis using ng serve_trace [of ?g M] by auto
  qed (use req nt ng in simp_all)
  have 2: "Mkdtemp (generated_dir M) \<in> set (trace (final (start M s))) \<and>
            temp_cert_dir (final (start M s)) = Some (generated_dir M) \<and>
            cert_file (final (start M s)) = Some (os_path_join (generated_dir M) ''cert.pem'') \<and>
            key_file (final (start M s)) = Some (os_path_join (generated_dir M) ''key.pem'') \<and>
            (bind M = None \<longrightarrow>
               LoadCertChain (Some (os_path_join (generated_dir M) ''cert.pem''))
                 (Some (os_path_join (generated_dir M) ''key.pem''))
               \<in> set (trace (final (start M s))))"
    if ok: "native_ok M \<or> openssl_ok M"
  proof -
    from ok have t: "fst (generate_self_signed_cert M s) = Inr True"
      by (simp add: generate_result)
    have st: "start_try M s = serve M ?g"
      by (cases M s rule: start_try_cases) (use req nt t in simp_all)
    have "Mkdtemp (generated_dir M) \<in> set (trace (snd (start_try M s)))"
      using generate_paths(4) [OF ok, of s] serve_trace [of ?g M] by (auto simp: st)
    moreover have "bind M = None \<Longrightarrow>
        LoadCertChain (Some (os_path_join (generated_dir M) ''cert.pem''))
          (Some (os_path_join (generated_dir M) ''key.pem''))
        \<in> set (trace (snd (start_try M s)))"
      using serve_loads [of M ?g] by (simp add: st generate_paths [OF ok])
    ultimately show ?thesis
      using sub by (auto simp: start_def cleanup_keeps st serve_keeps generate_paths [OF ok])
  qed
  from 1 2 sub show ?thesis by blast
qed

theorem one_sided_certificate_paths_overwritten_witness:
  "cert_file (example_server (Some ''my.crt'') None) = Some ''my.crt'' \<and>
   key_file (example_server (Some ''my.crt'') None) = None \<and>
   set required_files \<subseteq> files (example_server (Some ''my.crt'') None) \<and>
   native_ok example_outcomes \<and>
   NativeGeneration \<in> set (trace (final (start example_outcomes (example_server (Some ''my.crt'') None)))) \<and>
   temp_cert_dir (final (start example_outcomes (example_server (Some ''my.crt'') None))) =
     Some ''/tmp/tmpa'' \<and>
   cert_file (final (start example_outcomes (example_server (Some ''my.crt'') None))) =
     Some ''/tmp/tmpa/cert.pem'' \<and>
   key_file (final (start example_outcomes (example_server (Some ''my.crt'') None))) =
     Some ''/tmp/tmpa/key.pem''"
  using one_sided_certificate_paths_overwritten [of "example_server (Some ''my.crt'') None" example_outcomes]
  by simp

end
